theory Spec2Isabelle
  imports Main "HOL-Library.Word"
begin

section \<open>JavaScript values\<close>

text \<open>
  A JavaScript string is a sequence of UTF-16 code units. String literals of the source
  are ASCII and are written \<open>ustr ''...''\<close>.
\<close>

type_synonym jstring = "16 word list"

definition ustr :: "string \<Rightarrow> jstring" where
  "ustr s = map of_char s"

text \<open>
  The values that cross the network are JSON values; \<open>JUndefined\<close> is what reading a
  missing property gives. Numbers that the handlers look at are HTTP status codes, so
  numbers are integers here. An object is the list of its properties; a property is read
  at its first entry (a parsed object has one entry for each name).
\<close>

datatype json =
    JUndefined
  | JNull
  | JBool bool
  | JNum int
  | JStr jstring
  | JArr "json list"
  | JObj "(jstring \<times> json) list"

text \<open>
  What a \<open>throw\<close> carries: an \<open>Error\<close> instance with its message, or any other value.
\<close>

datatype js_exn = JsError jstring | JsThrown json

text \<open>The answer of the environment to a call that may throw (or a promise that may reject).\<close>

datatype 'a outcome = Returns 'a | Throws js_exn

text \<open>Truthiness, as \<open>if (x)\<close>, \<open>!x\<close> and \<open>x || y\<close> test it.\<close>

fun truthy :: "json \<Rightarrow> bool" where
  "truthy JUndefined = False"
| "truthy JNull = False"
| "truthy (JBool b) = b"
| "truthy (JNum n) = (n \<noteq> 0)"
| "truthy (JStr s) = (s \<noteq> [])"
| "truthy (JArr xs) = True"
| "truthy (JObj kvs) = True"

text \<open>
  Property access \<open>o.k\<close>. Reading a property of \<open>undefined\<close> or \<open>null\<close> throws a
  \<open>TypeError\<close> (the message is V8's); an object gives the property or \<open>undefined\<close>.
  The property names the source reads (\<open>error\<close>, \<open>message\<close>, \<open>content\<close>, \<open>text\<close>,
  \<open>transcription\<close>, \<open>response\<close>, \<open>language\<close>, \<open>ai_response\<close>, \<open>choices\<close>) are no
  built-in property of a string, number, boolean or array, where they read \<open>undefined\<close>.
\<close>

definition typeError :: "json \<Rightarrow> jstring \<Rightarrow> js_exn" where
  "typeError v k =
     JsError (ustr ''Cannot read properties of '' @
              (if v = JNull then ustr ''null'' else ustr ''undefined'') @
              ustr '' (reading '' @ [0x27] @ k @ [0x27] @ ustr '')'')"

fun getProp :: "json \<Rightarrow> jstring \<Rightarrow> js_exn + json" where
  "getProp JUndefined k = Inl (typeError JUndefined k)"
| "getProp JNull k = Inl (typeError JNull k)"
| "getProp (JObj kvs) k = Inr (case map_of kvs k of None \<Rightarrow> JUndefined | Some v \<Rightarrow> v)"
| "getProp v k = Inr JUndefined"

text \<open>Optional chaining \<open>o?.k\<close>: \<open>undefined\<close> when \<open>o\<close> is \<open>undefined\<close> or \<open>null\<close>.\<close>

definition optProp :: "json \<Rightarrow> jstring \<Rightarrow> json" where
  "optProp v k = (case getProp v k of Inl e \<Rightarrow> JUndefined | Inr x \<Rightarrow> x)"

text \<open>The first element \<open>a[0]\<close> of an array; \<open>undefined\<close> when the array is empty.\<close>

fun getFirst :: "json \<Rightarrow> js_exn + json" where
  "getFirst JUndefined = Inl (typeError JUndefined (ustr ''0''))"
| "getFirst JNull = Inl (typeError JNull (ustr ''0''))"
| "getFirst (JArr []) = Inr JUndefined"
| "getFirst (JArr (x # xs)) = Inr x"
| "getFirst (JStr []) = Inr JUndefined"
| "getFirst (JStr (c # cs)) = Inr (JStr [c])"
| "getFirst (JObj kvs) = Inr (case map_of kvs (ustr ''0'') of None \<Rightarrow> JUndefined | Some v \<Rightarrow> v)"
| "getFirst v = Inr JUndefined"

text \<open>Sequencing of steps that may throw.\<close>

definition andThen :: "js_exn + 'a \<Rightarrow> ('a \<Rightarrow> js_exn + 'b) \<Rightarrow> js_exn + 'b" where
  "andThen r f = (case r of Inl e \<Rightarrow> Inl e | Inr v \<Rightarrow> f v)"

definition await :: "'a outcome \<Rightarrow> js_exn + 'a" where
  "await r = (case r of Throws e \<Rightarrow> Inl e | Returns v \<Rightarrow> Inr v)"

section \<open>The chat-completion service (app/services/query-deepseek.ts)\<close>

datatype role = RoleUser | RoleAssistant

text \<open>\<open>DeepSeekMessage\<close>: a role and a content.\<close>

datatype DeepSeekMessage = DeepSeekMessage role json

text \<open>\<open>DeepSeekResult = DeepSeekResponse | DeepSeekError\<close> (app/types/deepseek.ts).\<close>

datatype DeepSeekResult =
    DeepSeekResponse (message: json) (done': bool)
  | DeepSeekError (error: jstring) (code: "nat option")

text \<open>
  The body of the \<open>try\<close> block. \<open>create\<close> is the Together client (its construction and
  \<open>chat.completions.create\<close>): what it answers to a message list.
  \<open>firstChoiceMessage\<close> is \<open>response.choices[0].message\<close>.
\<close>

definition firstChoiceMessage :: "json \<Rightarrow> js_exn + json" where
  "firstChoiceMessage response =
     andThen (getProp response (ustr ''choices'')) (\<lambda>choices.
     andThen (getFirst choices) (\<lambda>choice.
     getProp choice (ustr ''message'')))"

definition queryDeepSeek_try ::
  "(DeepSeekMessage list \<Rightarrow> json outcome) \<Rightarrow> DeepSeekMessage list \<Rightarrow> js_exn + DeepSeekResult" where
  "queryDeepSeek_try create messages =
     andThen (await (create messages)) (\<lambda>response.
     andThen (firstChoiceMessage response) (\<lambda>m.
     Inr (DeepSeekResponse m True)))"

text \<open>\<open>error instanceof Error ? error.message : fallback\<close>.\<close>

definition messageOr :: "jstring \<Rightarrow> js_exn \<Rightarrow> jstring" where
  "messageOr fallback e = (case e of JsError m \<Rightarrow> m | JsThrown v \<Rightarrow> fallback)"

text \<open>
  The function with its \<open>catch\<close>. The result is the settled promise: \<open>Inl\<close> would be a
  rejection, that is an exception reaching the caller.
\<close>

definition queryDeepSeek ::
  "(DeepSeekMessage list \<Rightarrow> json outcome) \<Rightarrow> DeepSeekMessage list \<Rightarrow> js_exn + DeepSeekResult" where
  "queryDeepSeek create messages =
     (case queryDeepSeek_try create messages of
        Inr r \<Rightarrow> Inr r
      | Inl e \<Rightarrow> Inr (DeepSeekError (messageOr (ustr ''Unknown error occurred'') e) (Some 500)))"

text \<open>
  What \<open>JSON.stringify\<close> makes of an object literal: a property whose value is
  \<open>undefined\<close> is left out.
\<close>

definition stringifyObj :: "(jstring \<times> json) list \<Rightarrow> json" where
  "stringifyObj kvs = JObj (filter (\<lambda>kv. snd kv \<noteq> JUndefined) kvs)"

definition resultJson :: "DeepSeekResult \<Rightarrow> json" where
  "resultJson r =
     (case r of
        DeepSeekResponse m d \<Rightarrow> stringifyObj [(ustr ''message'', m), (ustr ''done'', JBool d)]
      | DeepSeekError e c \<Rightarrow>
          stringifyObj [(ustr ''error'', JStr e),
                        (ustr ''code'', case c of None \<Rightarrow> JUndefined | Some n \<Rightarrow> JNum (int n))])"

section \<open>Numbers and values in template literals\<close>

function decimal :: "nat \<Rightarrow> jstring" where
  "decimal n = (if n < 10 then [of_nat (48 + n)] else decimal (n div 10) @ [of_nat (48 + n mod 10)])"
  by pat_completeness auto
termination
  by (relation "measure id") auto

declare decimal.simps [simp del]

definition joinComma :: "jstring list \<Rightarrow> jstring" where
  "joinComma xs = (case xs of [] \<Rightarrow> [] | y # ys \<Rightarrow> y @ concat (map (\<lambda>z. 0x2C # z) ys))"

text \<open>
  \<open>`${v}`\<close>: the string a value turns into. A number is printed by its decimal digits,
  which is what JavaScript prints for an integer of magnitude below \<open>10^21\<close>.
\<close>

fun toStr :: "json \<Rightarrow> jstring" where
  "toStr JUndefined = ustr ''undefined''"
| "toStr JNull = ustr ''null''"
| "toStr (JBool b) = (if b then ustr ''true'' else ustr ''false'')"
| "toStr (JNum n) = (if n < 0 then 0x2D # decimal (nat (- n)) else decimal (nat n))"
| "toStr (JStr s) = s"
| "toStr (JArr xs) =
     joinComma (map (\<lambda>x. if x = JUndefined \<or> x = JNull then [] else toStr x) xs)"
| "toStr (JObj kvs) = ustr ''[object Object]''"

section \<open>The relay endpoints\<close>

text \<open>What a route's \<open>action\<close> answers: a status and a JSON body.\<close>

record Response =
  status :: nat
  body :: json

text \<open>\<open>Response.json({ error: m }, { status: ... })\<close> carries this body.\<close>

definition errorBody :: "jstring \<Rightarrow> json" where
  "errorBody m = JObj [(ustr ''error'', JStr m)]"

text \<open>
  A multipart form: its fields in order; \<open>formData.get\<close> reads the first of a name. A
  field is a string or a file (a \<open>Blob\<close> of bytes).
\<close>

type_synonym blob = "8 word list"

datatype form_value = FormString jstring | FormFile blob

type_synonym form_data = "(jstring \<times> form_value) list"

text \<open>
  \<open>formData.get("file")\<close> under the check \<open>!audioBlob || !(audioBlob instanceof Blob)\<close>:
  the file when the first field of that name is one.
\<close>

definition getFile :: "form_data \<Rightarrow> blob option" where
  "getFile formData =
     (case map_of formData (ustr ''file'') of Some (FormFile audioBlob) \<Rightarrow> Some audioBlob | _ \<Rightarrow> None)"

text \<open>
  What the backend at \<open>localhost:8000\<close> answers to a \<open>fetch\<close>: a status and the
  outcome of reading its body as JSON.
\<close>

datatype upstream = Upstream (up_status: nat) (up_json: "json outcome")

definition ok :: "upstream \<Rightarrow> bool" where
  "ok r = (200 \<le> up_status r \<and> up_status r \<le> 299)"

subsection \<open>app/routes/transcribe.ts, the plain relay\<close>

text \<open>
  \<open>request\<close> is the outcome of \<open>request.formData()\<close>, \<open>fetch\<close> the backend. The
  \<open>try\<close> block first, then the action with its \<open>catch\<close>.
\<close>

definition action_transcribe_try ::
  "form_data outcome \<Rightarrow> (form_data \<Rightarrow> upstream outcome) \<Rightarrow> js_exn + Response" where
  "action_transcribe_try request fetch =
     andThen (await request) (\<lambda>formData.
       case getFile formData of
         None \<Rightarrow> Inr \<lparr>status = 400, body = errorBody (ustr ''No audio file provided'')\<rparr>
       | Some audioBlob \<Rightarrow>
           andThen (await (fetch formData)) (\<lambda>response.
             if \<not> ok response
             then Inl (JsError (ustr ''HTTP error! status: '' @ decimal (up_status response)))
             else andThen (await (up_json response)) (\<lambda>transcription.
                    Inr \<lparr>status = 200, body = transcription\<rparr>)))"

definition action_transcribe ::
  "form_data outcome \<Rightarrow> (form_data \<Rightarrow> upstream outcome) \<Rightarrow> Response" where
  "action_transcribe request fetch =
     (case action_transcribe_try request fetch of
        Inr r \<Rightarrow> r
      | Inl e \<Rightarrow> \<lparr>status = 500, body = errorBody (ustr ''Failed to transcribe audio'')\<rparr>)"

subsection \<open>app/routes/api.process-text.ts\<close>

text \<open>\<open>request\<close> is the outcome of \<open>request.json()\<close>; \<open>fetch\<close> gets the body sent.\<close>

definition action_process_text_try ::
  "json outcome \<Rightarrow> (json \<Rightarrow> upstream outcome) \<Rightarrow> js_exn + Response" where
  "action_process_text_try request fetch =
     andThen (await request) (\<lambda>body.
     andThen (getProp body (ustr ''text'')) (\<lambda>text.
     andThen (await (fetch (stringifyObj [(ustr ''text'', text)]))) (\<lambda>response.
       if \<not> ok response
       then Inl (JsError (ustr ''HTTP error! status: '' @ decimal (up_status response)))
       else andThen (await (up_json response)) (\<lambda>result.
              Inr \<lparr>status = 200, body = result\<rparr>))))"

definition action_process_text ::
  "json outcome \<Rightarrow> (json \<Rightarrow> upstream outcome) \<Rightarrow> Response" where
  "action_process_text request fetch =
     (case action_process_text_try request fetch of
        Inr r \<Rightarrow> r
      | Inl e \<Rightarrow> \<lparr>status = 500, body = errorBody (ustr ''Failed to process text'')\<rparr>)"

subsection \<open>The chained transcription relay (app/routes/transcribe.ts in app.tsx)\<close>

definition action_transcribe_chained_try ::
  "form_data outcome \<Rightarrow> (form_data \<Rightarrow> upstream outcome) \<Rightarrow>
   (DeepSeekMessage list \<Rightarrow> json outcome) \<Rightarrow> js_exn + Response" where
  "action_transcribe_chained_try request fetch create =
     andThen (await request) (\<lambda>formData.
       case getFile formData of
         None \<Rightarrow> Inr \<lparr>status = 400, body = errorBody (ustr ''No audio file provided'')\<rparr>
       | Some audioBlob \<Rightarrow>
           andThen (await (fetch formData)) (\<lambda>transcriptionResponse.
             if \<not> ok transcriptionResponse
             then Inl (JsError (ustr ''Transcription error: '' @
                                decimal (up_status transcriptionResponse)))
             else andThen (await (up_json transcriptionResponse)) (\<lambda>transcriptionData.
                  andThen (getProp transcriptionData (ustr ''text'')) (\<lambda>text.
                  andThen (queryDeepSeek create [DeepSeekMessage RoleUser text])
                    (\<lambda>deepseekResponse.
                    Inr \<lparr>status = 200,
                         body = stringifyObj
                           [(ustr ''transcription'', transcriptionData),
                            (ustr ''response'', resultJson deepseekResponse)]\<rparr>)))))"

definition action_transcribe_chained ::
  "form_data outcome \<Rightarrow> (form_data \<Rightarrow> upstream outcome) \<Rightarrow>
   (DeepSeekMessage list \<Rightarrow> json outcome) \<Rightarrow> Response" where
  "action_transcribe_chained request fetch create =
     (case action_transcribe_chained_try request fetch create of
        Inr r \<Rightarrow> r
      | Inl e \<Rightarrow> \<lparr>status = 500, body = errorBody (ustr ''Failed to process request'')\<rparr>)"

subsection \<open>The text-message relay (the route of part_000, \<open>/api/textmessage\<close>)\<close>

text \<open>
  \<open>const { message } = await request.json()\<close>: destructuring \<open>null\<close> throws a
  \<open>TypeError\<close> (the message is V8's).
\<close>

definition destructure :: "json \<Rightarrow> jstring \<Rightarrow> js_exn + json" where
  "destructure v k =
     (if v = JUndefined \<or> v = JNull
      then Inl (JsError (ustr ''Cannot destructure property '' @ [0x27] @ k @ [0x27] @
                         ustr '' of '' @ [0x27] @ ustr ''(intermediate value)'' @ [0x27] @
                         ustr '' as it is '' @ toStr v @ ustr ''.''))
      else getProp v k)"

definition action_textmessage_try ::
  "json outcome \<Rightarrow> (DeepSeekMessage list \<Rightarrow> json outcome) \<Rightarrow> js_exn + Response" where
  "action_textmessage_try request create =
     andThen (await request) (\<lambda>body.
     andThen (destructure body (ustr ''message'')) (\<lambda>message.
       if \<not> truthy message
       then Inr \<lparr>status = 400, body = errorBody (ustr ''Message is required'')\<rparr>
       else andThen (queryDeepSeek create [DeepSeekMessage RoleUser message]) (\<lambda>response.
              case response of
                DeepSeekError e c \<Rightarrow>
                  Inr \<lparr>status = (case c of None \<Rightarrow> 500 | Some n \<Rightarrow> if n = 0 then 500 else n),
                       body = errorBody e\<rparr>
              | DeepSeekResponse m d \<Rightarrow> Inr \<lparr>status = 200, body = resultJson response\<rparr>)))"

definition action_textmessage ::
  "json outcome \<Rightarrow> (DeepSeekMessage list \<Rightarrow> json outcome) \<Rightarrow> Response" where
  "action_textmessage request create =
     (case action_textmessage_try request create of
        Inr r \<Rightarrow> r
      | Inl e \<Rightarrow> \<lparr>status = 500, body = errorBody (messageOr (ustr ''Unknown error'') e)\<rparr>)"


section \<open>The chat component: shared parts\<close>

text \<open>
  \<open>String.prototype.trim\<close> removes white space and line terminators (ECMAScript
  \<open>WhiteSpace\<close> and \<open>LineTerminator\<close>) from both ends.
\<close>

definition isWhiteSpace :: "16 word \<Rightarrow> bool" where
  "isWhiteSpace c =
     (c = 0x9 \<or> c = 0xA \<or> c = 0xB \<or> c = 0xC \<or> c = 0xD \<or> c = 0x20 \<or> c = 0xA0 \<or>
      c = 0x1680 \<or> (0x2000 \<le> c \<and> c \<le> 0x200A) \<or> c = 0x2028 \<or> c = 0x2029 \<or>
      c = 0x202F \<or> c = 0x205F \<or> c = 0x3000 \<or> c = 0xFEFF)"

definition trim :: "jstring \<Rightarrow> jstring" where
  "trim s = rev (dropWhile isWhiteSpace (rev (dropWhile isWhiteSpace s)))"

text \<open>
  \<open>Message\<close>. The variant of part_001 with two fetchers adds the type \<open>"ai"\<close>. The
  content is whatever value the handler puts there.
\<close>

datatype msg_type = User | Assistant | Ai

record Message =
  id' :: jstring
  content :: json
  type' :: msg_type
  timestamp :: nat
  isVoice :: "bool option"

text \<open>
  What one call of \<open>addMessage\<close> reads from the environment: \<open>Date.now()\<close>,
  \<open>Math.random().toString(36).substr(2, 9)\<close> and \<open>new Date()\<close>.
\<close>

record stamp =
  now :: nat
  random36 :: jstring
  date :: nat

text \<open>The recorder and the tracks of its stream.\<close>

datatype track = Live | Ended

datatype recording_state = RInactive | RRecording | RPaused

record MediaRecorder =
  rstate :: recording_state
  stream :: "track list"

text \<open>A Remix fetcher: its \<open>state\<close> and its \<open>data\<close> (\<open>undefined\<close> before the first answer).\<close>

datatype fetcher_state = FIdle | FSubmitting | FLoading

record fetcher =
  fstate :: fetcher_state
  fdata :: json

text \<open>A request the component issues: the path and what is sent.\<close>

datatype payload = FormPayload form_data | JsonPayload json

datatype net_request = NetRequest jstring payload

text \<open>
  The state of the component: the \<open>useState\<close> cells, the refs and the transcription
  fetcher that all variants have, and \<open>network\<close>, the requests issued so far.
\<close>

record ui_state =
  messages :: "Message list"
  textInput :: jstring
  isRecording :: bool
  mediaRecorderRef :: "MediaRecorder option"
  chunksRef :: "blob list"
  transcribeFetcher :: fetcher
  network :: "net_request list"

definition isTranscribing :: "'a ui_state_scheme \<Rightarrow> bool" where
  "isTranscribing s = (fstate (transcribeFetcher s) \<noteq> FIdle)"

text \<open>
  \<open>addMessage\<close> of MainInterface.tsx (lines 320-332) and of part_001 (lines 346-358):
  the partial message is its content, its type and \<open>isVoice\<close> when given.
\<close>

definition addMessage ::
  "stamp \<Rightarrow> json \<Rightarrow> msg_type \<Rightarrow> bool option \<Rightarrow> 'a ui_state_scheme \<Rightarrow> 'a ui_state_scheme" where
  "addMessage st c t v s =
     s\<lparr>messages := messages s @
         [\<lparr>id' = ustr ''msg-'' @ decimal (now st) @ [0x2D] @ random36 st,
           content = c, type' = t, timestamp = date st, isVoice = v\<rparr>]\<rparr>"

subsection \<open>Recording\<close>

text \<open>
  How \<open>startRecording\<close> goes: \<open>getUserMedia\<close> rejects; or it gives a stream and
  \<open>new MediaRecorder(stream)\<close> throws; or \<open>mediaRecorder.start()\<close> throws; or all succeed.
\<close>

datatype start_outcome =
    GetUserMediaRejects js_exn
  | NewRecorderThrows "track list" js_exn
  | StartThrows "track list" js_exn
  | Started "track list"

definition microphoneError :: json where
  "microphoneError = JStr (ustr ''Error accessing microphone. Please check your permissions.'')"

definition startRecording ::
  "stamp \<Rightarrow> start_outcome \<Rightarrow> 'a ui_state_scheme \<Rightarrow> 'a ui_state_scheme" where
  "startRecording st out s =
     (case out of
        GetUserMediaRejects e \<Rightarrow> addMessage st microphoneError Assistant None s
      | NewRecorderThrows tracks e \<Rightarrow> addMessage st microphoneError Assistant None s
      | StartThrows tracks e \<Rightarrow>
          addMessage st microphoneError Assistant None
            (s\<lparr>mediaRecorderRef := Some \<lparr>rstate = RInactive, stream = tracks\<rparr>,
               chunksRef := []\<rparr>)
      | Started tracks \<Rightarrow>
          s\<lparr>mediaRecorderRef := Some \<lparr>rstate = RRecording, stream = tracks\<rparr>,
            chunksRef := [],
            isRecording := True\<rparr>)"

text \<open>\<open>mediaRecorder.ondataavailable\<close>.\<close>

definition ondataavailable :: "blob \<Rightarrow> 'a ui_state_scheme \<Rightarrow> 'a ui_state_scheme" where
  "ondataavailable e s = s\<lparr>chunksRef := chunksRef s @ [e]\<rparr>"

text \<open>
  \<open>mediaRecorder.onstop\<close>: the chunks become one blob, sent through the transcription
  fetcher to \<open>action\<close> (\<open>/api/transcribe\<close>).
\<close>

definition onstop :: "jstring \<Rightarrow> 'a ui_state_scheme \<Rightarrow> 'a ui_state_scheme" where
  "onstop action s =
     s\<lparr>transcribeFetcher := (transcribeFetcher s)\<lparr>fstate := FSubmitting\<rparr>,
       network := network s @
         [NetRequest action (FormPayload [(ustr ''file'', FormFile (concat (chunksRef s)))])]\<rparr>"

text \<open>
  \<open>stopRecording\<close>: \<open>MediaRecorder.stop()\<close> makes the recorder inactive (its
  \<open>dataavailable\<close> and \<open>stop\<close> events come later), then every track is stopped.
\<close>

definition stopRecording :: "'a ui_state_scheme \<Rightarrow> 'a ui_state_scheme" where
  "stopRecording s =
     (case mediaRecorderRef s of
        None \<Rightarrow> s
      | Some recorder \<Rightarrow>
          if isRecording s
          then s\<lparr>mediaRecorderRef :=
                   Some (recorder\<lparr>rstate := RInactive,
                                  stream := map (\<lambda>t. Ended) (stream recorder)\<rparr>),
                 isRecording := False\<rparr>
          else s)"

definition handleVoiceClick ::
  "stamp \<Rightarrow> start_outcome \<Rightarrow> 'a ui_state_scheme \<Rightarrow> 'a ui_state_scheme" where
  "handleVoiceClick st out s =
     (if isRecording s then stopRecording s else startRecording st out s)"

text \<open>The phases of a turn, read off the flags of the component.\<close>

datatype controller = Idle | Recording | AwaitingTranscription | AwaitingReply

section \<open>MainInterface.tsx (lines 217-540): the chained variant\<close>

text \<open>
  Its text request is a plain \<open>fetch\<close>; \<open>awaitingReply\<close> counts the runs of
  \<open>handleTextSubmit\<close> that wait at \<open>await fetch\<close>.
\<close>

record chained_state = ui_state +
  awaitingReply :: nat

definition initial_chained :: chained_state where
  "initial_chained =
     \<lparr>messages = [], textInput = [], isRecording = False, mediaRecorderRef = None,
      chunksRef = [], transcribeFetcher = \<lparr>fstate = FIdle, fdata = JUndefined\<rparr>,
      network = [], awaitingReply = 0\<rparr>"

definition controller_chained :: "chained_state \<Rightarrow> controller" where
  "controller_chained s =
     (if isRecording s then Recording
      else if isTranscribing s then AwaitingTranscription
      else if 0 < awaitingReply s then AwaitingReply
      else Idle)"

text \<open>The voice button is \<open>disabled={isTranscribing}\<close>: a press reaches the handler otherwise.\<close>

definition voiceButton_chained ::
  "stamp \<Rightarrow> start_outcome \<Rightarrow> chained_state \<Rightarrow> chained_state" where
  "voiceButton_chained st out s = (if isTranscribing s then s else handleVoiceClick st out s)"

text \<open>
  The effect on the transcription fetcher (lines 335-366). \<open>clk n\<close> is what the n-th
  \<open>addMessage\<close> of the run reads. \<open>Inl\<close>: the effect throws; nothing in the component
  catches it.
\<close>

definition transcribeEffect_chained ::
  "(nat \<Rightarrow> stamp) \<Rightarrow> chained_state \<Rightarrow> js_exn + chained_state" where
  "transcribeEffect_chained clk s =
     (let response = fdata (transcribeFetcher s) in
      if truthy response \<and> fstate (transcribeFetcher s) = FIdle
      then
        andThen (getProp response (ustr ''transcription'')) (\<lambda>transcription.
        andThen (getProp transcription (ustr ''error'')) (\<lambda>err.
          if \<not> truthy err
          then
            andThen (getProp transcription (ustr ''text'')) (\<lambda>text.
            andThen (getProp response (ustr ''response'')) (\<lambda>reply.
              if truthy reply
              then
                andThen (getProp reply (ustr ''message'')) (\<lambda>m.
                andThen (getProp m (ustr ''content'')) (\<lambda>c.
                  Inr (addMessage (clk 1) c Assistant None
                        (addMessage (clk 0) text User (Some True) s))))
              else
                Inr (addMessage (clk 1)
                      (JStr (ustr ''Sorry, there was an error getting a response.''))
                      Assistant None
                      (addMessage (clk 0) text User (Some True) s))))
          else
            Inr (addMessage (clk 0)
                  (JStr (ustr ''Sorry, there was an error processing your voice message.''))
                  Assistant None s)))
      else Inr s)"

text \<open>The fetcher settles with the relay's answer, and the effect runs.\<close>

definition transcribeSettles_chained ::
  "(nat \<Rightarrow> stamp) \<Rightarrow> json \<Rightarrow> chained_state \<Rightarrow> js_exn + chained_state" where
  "transcribeSettles_chained clk answer s =
     transcribeEffect_chained clk (s\<lparr>transcribeFetcher := \<lparr>fstate = FIdle, fdata = answer\<rparr>\<rparr>)"

text \<open>
  \<open>handleTextSubmit\<close> (lines 377-419). \<open>_send\<close> is the part from the guard to
  \<open>await fetch\<close>; \<open>_reply\<close> is the rest, run when the fetch settles with \<open>result\<close>
  (the relay's status and the outcome of \<open>response.json()\<close>).
\<close>

definition handleTextSubmit_chained_send :: "stamp \<Rightarrow> chained_state \<Rightarrow> chained_state" where
  "handleTextSubmit_chained_send st s =
     (addMessage st (JStr (textInput s)) User None s)
       \<lparr>network := network s @
          [NetRequest (ustr ''/api/textmessage'')
             (JsonPayload (JObj [(ustr ''message'', JStr (textInput s))]))],
        awaitingReply := Suc (awaitingReply s)\<rparr>"

definition handleTextSubmit_chained_try ::
  "stamp \<Rightarrow> upstream outcome \<Rightarrow> chained_state \<Rightarrow> js_exn + chained_state" where
  "handleTextSubmit_chained_try st result s =
     andThen (await result) (\<lambda>response.
     andThen (await (up_json response)) (\<lambda>data.
     andThen (getProp data (ustr ''error'')) (\<lambda>err.
       if \<not> truthy err
       then
         andThen (getProp data (ustr ''message'')) (\<lambda>m.
         andThen (getProp m (ustr ''content'')) (\<lambda>c.
           Inr (addMessage st c Assistant None s)))
       else
         Inr (addMessage st (JStr (ustr ''Sorry, there was an error getting a response.''))
               Assistant None s))))"

definition handleTextSubmit_chained_reply ::
  "stamp \<Rightarrow> upstream outcome \<Rightarrow> chained_state \<Rightarrow> chained_state" where
  "handleTextSubmit_chained_reply st result s =
     (let s' = (case handleTextSubmit_chained_try st result s of
                  Inr s1 \<Rightarrow> s1
                | Inl e \<Rightarrow>
                    addMessage st
                      (JStr (ustr ''Sorry, there was an error processing your message.''))
                      Assistant None s)
      in s'\<lparr>textInput := [], awaitingReply := awaitingReply s' - 1\<rparr>)"

text \<open>A submit of the form: what happens at once.\<close>

definition handleTextSubmit_chained_submit :: "stamp \<Rightarrow> chained_state \<Rightarrow> chained_state" where
  "handleTextSubmit_chained_submit st s =
     (if trim (textInput s) = [] \<or> isTranscribing s then s
      else handleTextSubmit_chained_send st s)"

text \<open>A whole run of \<open>handleTextSubmit\<close>, nothing else happening meanwhile.\<close>

definition handleTextSubmit_chained ::
  "(nat \<Rightarrow> stamp) \<Rightarrow> upstream outcome \<Rightarrow> chained_state \<Rightarrow> chained_state" where
  "handleTextSubmit_chained clk result s =
     (if trim (textInput s) = [] \<or> isTranscribing s then s
      else handleTextSubmit_chained_reply (clk 1) result
             (handleTextSubmit_chained_send (clk 0) s))"

section \<open>part_001 (lines 285-606): the variant with two fetchers\<close>

record fetchers_state = ui_state +
  textFetcher :: fetcher

definition initial_fetchers :: fetchers_state where
  "initial_fetchers =
     \<lparr>messages = [], textInput = [], isRecording = False, mediaRecorderRef = None,
      chunksRef = [], transcribeFetcher = \<lparr>fstate = FIdle, fdata = JUndefined\<rparr>,
      network = [], textFetcher = \<lparr>fstate = FIdle, fdata = JUndefined\<rparr>\<rparr>"

definition isProcessing :: "fetchers_state \<Rightarrow> bool" where
  "isProcessing s =
     (fstate (transcribeFetcher s) \<noteq> FIdle \<or> fstate (textFetcher s) \<noteq> FIdle)"

definition controller_fetchers :: "fetchers_state \<Rightarrow> controller" where
  "controller_fetchers s =
     (if isRecording s then Recording
      else if fstate (transcribeFetcher s) \<noteq> FIdle then AwaitingTranscription
      else if fstate (textFetcher s) \<noteq> FIdle then AwaitingReply
      else Idle)"

text \<open>The voice button is \<open>disabled={isProcessing}\<close>.\<close>

definition voiceButton_fetchers ::
  "stamp \<Rightarrow> start_outcome \<Rightarrow> fetchers_state \<Rightarrow> fetchers_state" where
  "voiceButton_fetchers st out s = (if isProcessing s then s else handleVoiceClick st out s)"

text \<open>
  The effect on the transcription fetcher (lines 404-442), a function of the state it
  runs in. Every plain access \<open>o.k\<close> in it comes after a test that \<open>o\<close> is truthy, where
  it reads what \<open>o?.k\<close> reads (lemma \<open>getProp_truthy\<close>).
\<close>

definition transcribeEffect_fetchers ::
  "(nat \<Rightarrow> stamp) \<Rightarrow> fetchers_state \<Rightarrow> fetchers_state" where
  "transcribeEffect_fetchers clk s =
     (let transcriptionData = fdata (transcribeFetcher s) in
      if truthy transcriptionData \<and> \<not> truthy (optProp transcriptionData (ustr ''error'')) \<and>
         fstate (transcribeFetcher s) = FIdle
      then
        let transcription = optProp transcriptionData (ustr ''text'');
            s1 = addMessage (clk 0) transcription User (Some True) s;
            s2 = addMessage (clk 1)
                   (JStr (ustr ''Transcription ('' @
                          toStr (optProp transcriptionData (ustr ''language'')) @
                          ustr ''): '' @ [0x22] @ toStr transcription @ [0x22]))
                   Assistant None s1;
            ai_response = optProp transcriptionData (ustr ''ai_response'')
        in if truthy (optProp ai_response (ustr ''response''))
           then addMessage (clk 2) (optProp ai_response (ustr ''response'')) Ai None s2
           else if truthy (optProp ai_response (ustr ''error''))
           then addMessage (clk 2)
                  (JStr (ustr ''AI Error: '' @ toStr (optProp ai_response (ustr ''error''))))
                  Assistant None s2
           else s2
      else if truthy (optProp transcriptionData (ustr ''error''))
      then addMessage (clk 0)
             (JStr (ustr ''Error: '' @ toStr (optProp transcriptionData (ustr ''error''))))
             Assistant None s
      else s)"

text \<open>
  A fetcher that submits goes from \<open>idle\<close> to \<open>submitting\<close>, then to \<open>loading\<close> with the
  answer of the action as its data, then back to \<open>idle\<close>. Each change renders the component,
  and the effect, which has the state and the data of the fetcher among its dependencies,
  runs after each of them: after \<open>onstop\<close> has submitted, when the answer has come, and
  when the fetcher is idle again.
\<close>

definition transcribeSubmits_fetchers ::
  "(nat \<Rightarrow> stamp) \<Rightarrow> fetchers_state \<Rightarrow> fetchers_state" where
  "transcribeSubmits_fetchers clk s =
     transcribeEffect_fetchers clk (onstop (ustr ''/api/transcribe'') s)"




text \<open>The effect on the text fetcher (lines 444-465).\<close>

definition textEffect_fetchers :: "stamp \<Rightarrow> fetchers_state \<Rightarrow> fetchers_state" where
  "textEffect_fetchers st s =
     (let textData = fdata (textFetcher s) in
      if truthy textData \<and> \<not> truthy (optProp textData (ustr ''error'')) \<and>
         fstate (textFetcher s) = FIdle
      then
        let ai_response = optProp textData (ustr ''ai_response'')
        in if truthy (optProp ai_response (ustr ''response''))
           then addMessage st (optProp ai_response (ustr ''response'')) Ai None s
           else if truthy (optProp ai_response (ustr ''error''))
           then addMessage st
                  (JStr (ustr ''AI Error: '' @ toStr (optProp ai_response (ustr ''error''))))
                  Assistant None s
           else s
      else if truthy (optProp textData (ustr ''error''))
      then addMessage st
             (JStr (ustr ''Error: '' @ toStr (optProp textData (ustr ''error''))))
             Assistant None s
      else s)"

text \<open>The runs of the text effect when the answer has come and when the fetcher is idle again.\<close>

definition textLoads_fetchers :: "stamp \<Rightarrow> json \<Rightarrow> fetchers_state \<Rightarrow> fetchers_state" where
  "textLoads_fetchers st answer s =
     textEffect_fetchers st (s\<lparr>textFetcher := \<lparr>fstate = FLoading, fdata = answer\<rparr>\<rparr>)"

definition textIdles_fetchers :: "stamp \<Rightarrow> fetchers_state \<Rightarrow> fetchers_state" where
  "textIdles_fetchers st s =
     textEffect_fetchers st (s\<lparr>textFetcher := (textFetcher s)\<lparr>fstate := FIdle\<rparr>\<rparr>)"

definition textSettles_fetchers ::
  "(nat \<Rightarrow> stamp) \<Rightarrow> json \<Rightarrow> fetchers_state \<Rightarrow> fetchers_state" where
  "textSettles_fetchers clk answer s =
     textIdles_fetchers (clk 1) (textLoads_fetchers (clk 0) answer s)"

text \<open>\<open>handleTextSubmit\<close> (lines 475-494).\<close>

definition handleTextSubmit_fetchers :: "stamp \<Rightarrow> fetchers_state \<Rightarrow> fetchers_state" where
  "handleTextSubmit_fetchers st s =
     (if trim (textInput s) = [] \<or> isProcessing s then s
      else (addMessage st (JStr (textInput s)) User None s)
             \<lparr>textFetcher := (textFetcher s)\<lparr>fstate := FSubmitting\<rparr>,
              network := network s @
                [NetRequest (ustr ''/api/process-text'')
                   (JsonPayload (JObj [(ustr ''text'', JStr (textInput s))]))],
              textInput := []\<rparr>)"

text \<open>
  A text submission from the submit to the idle fetcher, nothing else happening meanwhile:
  the handler, the run of the effect on the submitting fetcher (its data is still the
  answer before), and the two runs when the answer settles.
\<close>

definition textSubmission_fetchers ::
  "(nat \<Rightarrow> stamp) \<Rightarrow> json \<Rightarrow> fetchers_state \<Rightarrow> fetchers_state" where
  "textSubmission_fetchers clk answer s =
     (if trim (textInput s) = [] \<or> isProcessing s then s
      else textSettles_fetchers (\<lambda>n. clk (n + 2)) answer
             (textEffect_fetchers (clk 1) (handleTextSubmit_fetchers (clk 0) s)))"

section \<open>part_001 (lines 1-284): the variant with a message counter\<close>

record counter_state = ui_state +
  messageCounter :: nat

definition initial_counter :: counter_state where
  "initial_counter =
     \<lparr>messages = [], textInput = [], isRecording = False, mediaRecorderRef = None,
      chunksRef = [], transcribeFetcher = \<lparr>fstate = FIdle, fdata = JUndefined\<rparr>,
      network = [], messageCounter = 0\<rparr>"

text \<open>
  \<open>addMessage\<close> (lines 98-111). \<open>setMessageCounter\<close> updates the cell from its latest
  value; the id is made from \<open>messageCounter\<close>, the constant of the render that made the
  closure: \<open>rendered\<close>. \<open>d\<close> is \<open>new Date()\<close>.
\<close>

definition addMessage_counter ::
  "nat \<Rightarrow> nat \<Rightarrow> json \<Rightarrow> msg_type \<Rightarrow> bool option \<Rightarrow> counter_state \<Rightarrow> counter_state" where
  "addMessage_counter rendered d c t v s =
     s\<lparr>messageCounter := messageCounter s + 1,
       messages := messages s @
         [\<lparr>id' = ustr ''msg-'' @ decimal rendered,
           content = c, type' = t, timestamp = d, isVoice = v\<rparr>]\<rparr>"

text \<open>
  \<open>handleTextSubmit\<close> (lines 153-169): both calls of \<open>addMessage\<close> are made by the handler
  of one render, the one showing the state \<open>s\<close>.
\<close>

definition handleTextSubmit_counter :: "(nat \<Rightarrow> nat) \<Rightarrow> counter_state \<Rightarrow> counter_state" where
  "handleTextSubmit_counter dates s =
     (if trim (textInput s) = [] \<or> isTranscribing s then s
      else
        (addMessage_counter (messageCounter s) (dates 1)
           (JStr (ustr ''I received your message: '' @ [0x22] @ textInput s @ [0x22] @
                  ustr ''. How can I assist you further?''))
           Assistant None
           (addMessage_counter (messageCounter s) (dates 0) (JStr (textInput s)) User None s))
        \<lparr>textInput := []\<rparr>)"

section \<open>Sample inputs\<close>

text \<open>Readings of the clock and of the random source, for the worked examples below.\<close>

definition sampleClock :: "nat \<Rightarrow> stamp" where
  "sampleClock n = \<lparr>now = 170 + n, random36 = ustr ''k3x9q2m1z'', date = 170 + n\<rparr>"

text \<open>A transcription as the backend answers it, and an answer of the Together client.\<close>

definition sampleTranscription :: json where
  "sampleTranscription =
     JObj [(ustr ''text'', JStr (ustr ''hello'')),
           (ustr ''language'', JStr (ustr ''en'')),
           (ustr ''segments'', JArr [])]"

definition sampleReply :: json where
  "sampleReply =
     JObj [(ustr ''role'', JStr (ustr ''assistant'')), (ustr ''content'', JStr (ustr ''Hi''))]"

definition sampleCompletion :: json where
  "sampleCompletion = JObj [(ustr ''choices'', JArr [JObj [(ustr ''message'', sampleReply)]])]"

text \<open>
  What the chained relay answers for them, and an answer of the kind part_001 reads.
\<close>

definition sampleChainedAnswer :: json where
  "sampleChainedAnswer =
     JObj [(ustr ''transcription'', sampleTranscription),
           (ustr ''response'',
            JObj [(ustr ''message'', sampleReply), (ustr ''done'', JBool True)])]"

definition sampleFetcherAnswer :: json where
  "sampleFetcherAnswer =
     JObj [(ustr ''text'', JStr (ustr ''hello'')),
           (ustr ''language'', JStr (ustr ''en'')),
           (ustr ''segments'', JArr []),
           (ustr ''ai_response'', JObj [(ustr ''response'', JStr (ustr ''Hi''))])]"

definition sampleForm :: form_data where
  "sampleForm = [(ustr ''file'', FormFile [0x1A, 0x45, 0xDF, 0xA3])]"

section \<open>Properties\<close>

subsection \<open>The chat-completion service\<close>

lemma queryDeepSeek_total:
  "\<exists>r. queryDeepSeek create msgs = Inr r"
  by (simp add: queryDeepSeek_def split: sum.splits)

lemma queryDeepSeek_Throws:
  "create msgs = Throws e \<Longrightarrow>
   queryDeepSeek create msgs =
     Inr (DeepSeekError (messageOr (ustr ''Unknown error occurred'') e) (Some 500))"
  by (simp add: queryDeepSeek_def queryDeepSeek_try_def andThen_def await_def)

lemma queryDeepSeek_Returns:
  "create msgs = Returns response \<Longrightarrow>
   queryDeepSeek create msgs =
     (case firstChoiceMessage response of
        Inr m \<Rightarrow> Inr (DeepSeekResponse m True)
      | Inl e \<Rightarrow> Inr (DeepSeekError (messageOr (ustr ''Unknown error occurred'') e) (Some 500)))"
  by (simp add: queryDeepSeek_def queryDeepSeek_try_def andThen_def await_def
           split: sum.splits)

lemma queryDeepSeek_cases:
  "(\<exists>m. queryDeepSeek create msgs = Inr (DeepSeekResponse m True)) \<or>
   (\<exists>e. queryDeepSeek create msgs =
          Inr (DeepSeekError (messageOr (ustr ''Unknown error occurred'') e) (Some 500)))"
  by (cases "create msgs")
     (auto simp: queryDeepSeek_Returns queryDeepSeek_Throws split: sum.splits)

text \<open>
  C10. \<open>queryDeepSeek\<close> never rejects. When the client answers with an object whose
  \<open>choices\<close> is an array that starts with an object, the result is a success value that
  carries the \<open>message\<close> of that first choice (\<open>undefined\<close> when it has none) with \<open>done\<close>
  true. When the client throws, the result is an error value with the exception's message
  (the fixed text for a thrown value that is no \<open>Error\<close>) and code 500; so it is when the
  answer cannot be read: without \<open>choices\<close>, or with an empty \<open>choices\<close>, the
  \<open>TypeError\<close> of the read is the exception.
\<close>

theorem queryDeepSeek_never_throws:
  "(\<forall>e. queryDeepSeek create msgs \<noteq> Inl e) \<and>
   (\<forall>kvs cvs rest m.
      create msgs = Returns (JObj kvs) \<longrightarrow>
      map_of kvs (ustr ''choices'') = Some (JArr (JObj cvs # rest)) \<longrightarrow>
      map_of cvs (ustr ''message'') = Some m \<longrightarrow>
      queryDeepSeek create msgs = Inr (DeepSeekResponse m True)) \<and>
   (\<forall>kvs cvs rest.
      create msgs = Returns (JObj kvs) \<longrightarrow>
      map_of kvs (ustr ''choices'') = Some (JArr (JObj cvs # rest)) \<longrightarrow>
      map_of cvs (ustr ''message'') = None \<longrightarrow>
      queryDeepSeek create msgs = Inr (DeepSeekResponse JUndefined True)) \<and>
   (\<forall>kvs.
      create msgs = Returns (JObj kvs) \<longrightarrow>
      map_of kvs (ustr ''choices'') = None \<longrightarrow>
      queryDeepSeek create msgs =
        Inr (DeepSeekError
              (ustr ''Cannot read properties of undefined (reading '' @ [0x27] @ ustr ''0'' @
               [0x27] @ ustr '')'') (Some 500))) \<and>
   (\<forall>kvs.
      create msgs = Returns (JObj kvs) \<longrightarrow>
      map_of kvs (ustr ''choices'') = Some (JArr []) \<longrightarrow>
      queryDeepSeek create msgs =
        Inr (DeepSeekError
              (ustr ''Cannot read properties of undefined (reading '' @ [0x27] @
               ustr ''message'' @ [0x27] @ ustr '')'') (Some 500))) \<and>
   (\<forall>response m. create msgs = Returns response \<longrightarrow> firstChoiceMessage response = Inr m \<longrightarrow>
      queryDeepSeek create msgs = Inr (DeepSeekResponse m True)) \<and>
   (\<forall>response e. create msgs = Returns response \<longrightarrow> firstChoiceMessage response = Inl e \<longrightarrow>
      queryDeepSeek create msgs =
        Inr (DeepSeekError (messageOr (ustr ''Unknown error occurred'') e) (Some 500))) \<and>
   (\<forall>m. create msgs = Throws (JsError m) \<longrightarrow>
      queryDeepSeek create msgs = Inr (DeepSeekError m (Some 500))) \<and>
   (\<forall>v. create msgs = Throws (JsThrown v) \<longrightarrow>
      queryDeepSeek create msgs =
        Inr (DeepSeekError (ustr ''Unknown error occurred'') (Some 500)))"
proof (intro conjI allI impI)
  fix e
  obtain r where "queryDeepSeek create msgs = Inr r"
    using queryDeepSeek_total by blast
  then show "queryDeepSeek create msgs \<noteq> Inl e" by simp
next
  fix kvs cvs rest m
  assume "create msgs = Returns (JObj kvs)"
    "map_of kvs (ustr ''choices'') = Some (JArr (JObj cvs # rest))"
    "map_of cvs (ustr ''message'') = Some m"
  then show "queryDeepSeek create msgs = Inr (DeepSeekResponse m True)"
    by (simp add: queryDeepSeek_Returns firstChoiceMessage_def andThen_def)
next
  fix kvs cvs rest
  assume "create msgs = Returns (JObj kvs)"
    "map_of kvs (ustr ''choices'') = Some (JArr (JObj cvs # rest))"
    "map_of cvs (ustr ''message'') = None"
  then show "queryDeepSeek create msgs = Inr (DeepSeekResponse JUndefined True)"
    by (simp add: queryDeepSeek_Returns firstChoiceMessage_def andThen_def)
next
  fix kvs
  assume "create msgs = Returns (JObj kvs)" "map_of kvs (ustr ''choices'') = None"
  then show "queryDeepSeek create msgs =
        Inr (DeepSeekError
              (ustr ''Cannot read properties of undefined (reading '' @ [0x27] @ ustr ''0'' @
               [0x27] @ ustr '')'') (Some 500))"
    by (simp add: queryDeepSeek_Returns firstChoiceMessage_def andThen_def messageOr_def
          typeError_def ustr_def)
next
  fix kvs
  assume "create msgs = Returns (JObj kvs)" "map_of kvs (ustr ''choices'') = Some (JArr [])"
  then show "queryDeepSeek create msgs =
        Inr (DeepSeekError
              (ustr ''Cannot read properties of undefined (reading '' @ [0x27] @
               ustr ''message'' @ [0x27] @ ustr '')'') (Some 500))"
    by (simp add: queryDeepSeek_Returns firstChoiceMessage_def andThen_def messageOr_def
          typeError_def ustr_def)
next
  fix response m
  assume "create msgs = Returns response" "firstChoiceMessage response = Inr m"
  then show "queryDeepSeek create msgs = Inr (DeepSeekResponse m True)"
    by (simp add: queryDeepSeek_Returns)
next
  fix response e
  assume "create msgs = Returns response" "firstChoiceMessage response = Inl e"
  then show "queryDeepSeek create msgs =
      Inr (DeepSeekError (messageOr (ustr ''Unknown error occurred'') e) (Some 500))"
    by (simp add: queryDeepSeek_Returns)
next
  fix m
  assume "create msgs = Throws (JsError m)"
  then show "queryDeepSeek create msgs = Inr (DeepSeekError m (Some 500))"
    by (simp add: queryDeepSeek_Throws messageOr_def)
next
  fix v
  assume "create msgs = Throws (JsThrown v)"
  then show "queryDeepSeek create msgs =
      Inr (DeepSeekError (ustr ''Unknown error occurred'') (Some 500))"
    by (simp add: queryDeepSeek_Throws messageOr_def)
qed

text \<open>
  A client that throws an \<open>Error\<close>, one that throws \<open>null\<close>, one that answers with a first
  choice, with a first choice that has no message, without \<open>choices\<close>, and with no choice.
\<close>

theorem queryDeepSeek_never_throws_witness:
  "queryDeepSeek (\<lambda>ms. Throws (JsError (ustr ''429 rate limited'')))
       [DeepSeekMessage RoleUser (JStr (ustr ''hi''))]
     = Inr (DeepSeekError (ustr ''429 rate limited'') (Some 500)) \<and>
   queryDeepSeek (\<lambda>ms. Throws (JsThrown JNull)) []
     = Inr (DeepSeekError (ustr ''Unknown error occurred'') (Some 500)) \<and>
   queryDeepSeek (\<lambda>ms. Returns sampleCompletion) [] = Inr (DeepSeekResponse sampleReply True) \<and>
   queryDeepSeek (\<lambda>ms. Returns (JObj [(ustr ''choices'', JArr [JObj []])])) []
     = Inr (DeepSeekResponse JUndefined True) \<and>
   queryDeepSeek (\<lambda>ms. Returns (JObj [])) []
     = Inr (DeepSeekError (ustr ''Cannot read properties of undefined (reading '' @ [0x27] @
                           ustr ''0'' @ [0x27] @ ustr '')'') (Some 500)) \<and>
   queryDeepSeek (\<lambda>ms. Returns (JObj [(ustr ''choices'', JArr [])])) []
     = Inr (DeepSeekError (ustr ''Cannot read properties of undefined (reading '' @ [0x27] @
                           ustr ''message'' @ [0x27] @ ustr '')'') (Some 500))"
proof -
  note T1 = queryDeepSeek_never_throws
      [of "\<lambda>ms. Throws (JsError (ustr ''429 rate limited''))"
          "[DeepSeekMessage RoleUser (JStr (ustr ''hi''))]"]
  note T2 = queryDeepSeek_never_throws [of "\<lambda>ms. Throws (JsThrown JNull)" "[]"]
  note T3 = queryDeepSeek_never_throws [of "\<lambda>ms. Returns sampleCompletion" "[]"]
  note T4 = queryDeepSeek_never_throws
      [of "\<lambda>ms. Returns (JObj [(ustr ''choices'', JArr [JObj []])])" "[]"]
  note T5 = queryDeepSeek_never_throws [of "\<lambda>ms. Returns (JObj [])" "[]"]
  note T6 = queryDeepSeek_never_throws
      [of "\<lambda>ms. Returns (JObj [(ustr ''choices'', JArr [])])" "[]"]
  have a: "queryDeepSeek (\<lambda>ms. Throws (JsError (ustr ''429 rate limited'')))
          [DeepSeekMessage RoleUser (JStr (ustr ''hi''))]
        = Inr (DeepSeekError (ustr ''429 rate limited'') (Some 500))"
    using T1 by simp
  have b: "queryDeepSeek (\<lambda>ms. Throws (JsThrown JNull)) []
        = Inr (DeepSeekError (ustr ''Unknown error occurred'') (Some 500))"
    using T2 by simp
  have s: "sampleCompletion = JObj [(ustr ''choices'', JArr [JObj [(ustr ''message'', sampleReply)]])]"
    by (simp add: sampleCompletion_def)
  have c: "queryDeepSeek (\<lambda>ms. Returns sampleCompletion) []
      = Inr (DeepSeekResponse sampleReply True)"
    using T3 [THEN conjunct2, THEN conjunct1] unfolding s by simp
  have d: "queryDeepSeek (\<lambda>ms. Returns (JObj [(ustr ''choices'', JArr [JObj []])])) []
      = Inr (DeepSeekResponse JUndefined True)"
    using T4 [THEN conjunct2, THEN conjunct2, THEN conjunct1] by simp
  have e: "queryDeepSeek (\<lambda>ms. Returns (JObj [])) []
     = Inr (DeepSeekError (ustr ''Cannot read properties of undefined (reading '' @ [0x27] @
                           ustr ''0'' @ [0x27] @ ustr '')'') (Some 500))"
    using T5 [THEN conjunct2, THEN conjunct2, THEN conjunct2, THEN conjunct1] by simp
  have f: "queryDeepSeek (\<lambda>ms. Returns (JObj [(ustr ''choices'', JArr [])])) []
     = Inr (DeepSeekError (ustr ''Cannot read properties of undefined (reading '' @ [0x27] @
                           ustr ''message'' @ [0x27] @ ustr '')'') (Some 500))"
    using T6 [THEN conjunct2, THEN conjunct2, THEN conjunct2, THEN conjunct2, THEN conjunct1]
    by simp
  from a b c d e f show ?thesis by simp
qed

subsection \<open>Strings and messages\<close>

lemma trim_empty_iff: "(trim s = []) = (\<forall>c \<in> set s. isWhiteSpace c)"
proof (cases "\<forall>c \<in> set s. isWhiteSpace c")
  case True
  then have dw: "dropWhile isWhiteSpace s = []"
    by (simp add: dropWhile_eq_Nil_conv)
  have "trim s = []"
    unfolding trim_def dw by simp
  with True show ?thesis
    by simp
next
  case False
  then have ne: "dropWhile isWhiteSpace s \<noteq> []"
    by (simp add: dropWhile_eq_Nil_conv)
  then have "\<not> isWhiteSpace (hd (dropWhile isWhiteSpace s))"
    by (rule hd_dropWhile)
  moreover have "hd (dropWhile isWhiteSpace s) \<in> set (rev (dropWhile isWhiteSpace s))"
    using ne by simp
  ultimately have "dropWhile isWhiteSpace (rev (dropWhile isWhiteSpace s)) \<noteq> []"
    by (auto simp: dropWhile_eq_Nil_conv)
  then have "trim s \<noteq> []"
    unfolding trim_def by simp
  with False show ?thesis
    by simp
qed

lemma trim_hello: "trim (ustr ''hello'') \<noteq> []"
  by (simp add: trim_empty_iff ustr_def isWhiteSpace_def)



subsection \<open>Text submission in the chained variant\<close>

lemma chained_send_appends:
  "messages (handleTextSubmit_chained_send st s) =
     messages s @ [\<lparr>id' = ustr ''msg-'' @ decimal (now st) @ [0x2D] @ random36 st,
                    content = JStr (textInput s), type' = User, timestamp = date st,
                    isVoice = None\<rparr>] \<and>
   awaitingReply (handleTextSubmit_chained_send st s) = Suc (awaitingReply s) \<and>
   transcribeFetcher (handleTextSubmit_chained_send st s) = transcribeFetcher s \<and>
   isRecording (handleTextSubmit_chained_send st s) = isRecording s"
  by (simp add: handleTextSubmit_chained_send_def addMessage_def)








subsection \<open>Text submission in the variant with two fetchers\<close>

lemma fetchers_submit:
  assumes "trim (textInput t) \<noteq> []" "\<not> isProcessing t"
  shows "messages (handleTextSubmit_fetchers st t) =
           messages t @ [\<lparr>id' = ustr ''msg-'' @ decimal (now st) @ [0x2D] @ random36 st,
                    content = JStr (textInput t), type' = User, timestamp = date st,
                    isVoice = None\<rparr>] \<and>
         fstate (textFetcher (handleTextSubmit_fetchers st t)) = FSubmitting \<and>
         network (handleTextSubmit_fetchers st t) = network t @
           [NetRequest (ustr ''/api/process-text'')
              (JsonPayload (JObj [(ustr ''text'', JStr (textInput t))]))]"
  using assms by (simp add: handleTextSubmit_fetchers_def addMessage_def)






subsection \<open>A text submission\<close>




text \<open>
  Two answers that the statement above leaves out. An answer with a top-level \<open>error\<close> is
  shown at \<open>loading\<close> and again at \<open>idle\<close>, since that branch of the effect does not look at
  the state of the fetcher: the submission appends the \<open>user\<close> turn and two error turns. An
  answer with neither a reply nor an error appends the \<open>user\<close> turn alone.
\<close>

lemma text_error_answer_shown_twice:
  "map content (messages (textSubmission_fetchers sampleClock
      (errorBody (ustr ''Failed to process text''))
      (initial_fetchers\<lparr>textInput := ustr ''hello''\<rparr>))) =
     [JStr (ustr ''hello''), JStr (ustr ''Error: Failed to process text''),
      JStr (ustr ''Error: Failed to process text'')]"
  by (simp add: textSubmission_fetchers_def textSettles_fetchers_def textIdles_fetchers_def
        textLoads_fetchers_def textEffect_fetchers_def handleTextSubmit_fetchers_def
        initial_fetchers_def isProcessing_def trim_empty_iff isWhiteSpace_def addMessage_def
        optProp_def errorBody_def ustr_def Let_def)

lemma text_answer_without_reply:
  "map type' (messages (textSubmission_fetchers sampleClock
      (JObj [(ustr ''text'', JStr (ustr ''hello''))])
      (initial_fetchers\<lparr>textInput := ustr ''hello''\<rparr>))) = [User]"
  by (simp add: textSubmission_fetchers_def textSettles_fetchers_def textIdles_fetchers_def
        textLoads_fetchers_def textEffect_fetchers_def handleTextSubmit_fetchers_def
        initial_fetchers_def isProcessing_def trim_empty_iff isWhiteSpace_def addMessage_def
        optProp_def ustr_def Let_def)

subsection \<open>Blank input\<close>

text \<open>
  C7. When every code unit of the text input is white space (the empty input included),
  a submit returns the state as it was: the message list, every other cell and the list
  of requests issued. This holds for the submit and for the whole run of MainInterface.tsx,
  and for the submit of part_001.
\<close>

theorem blank_submit_changes_nothing:
  "((\<forall>c \<in> set (textInput s). isWhiteSpace c) \<longrightarrow>
      handleTextSubmit_chained_submit st s = s \<and>
      handleTextSubmit_chained clk result s = s) \<and>
   ((\<forall>c \<in> set (textInput t). isWhiteSpace c) \<longrightarrow>
      handleTextSubmit_fetchers st t = t)"
  by (simp add: handleTextSubmit_chained_submit_def handleTextSubmit_chained_def
        handleTextSubmit_fetchers_def trim_empty_iff)

text \<open>A space, a tab, a no-break space and an ideographic space; and the empty input.\<close>

theorem blank_submit_changes_nothing_witness:
  "handleTextSubmit_chained_submit (sampleClock 0)
     (initial_chained\<lparr>textInput := [0x20, 0x9, 0xA0, 0x3000]\<rparr>)
     = initial_chained\<lparr>textInput := [0x20, 0x9, 0xA0, 0x3000]\<rparr> \<and>
   handleTextSubmit_chained sampleClock (Throws (JsThrown JNull))
     (initial_chained\<lparr>textInput := [0x20, 0x9, 0xA0, 0x3000]\<rparr>)
     = initial_chained\<lparr>textInput := [0x20, 0x9, 0xA0, 0x3000]\<rparr> \<and>
   handleTextSubmit_fetchers (sampleClock 0) initial_fetchers = initial_fetchers"
proof -
  have w: "\<forall>c \<in> set (textInput (initial_chained\<lparr>textInput := [0x20, 0x9, 0xA0, 0x3000]\<rparr>)).
      isWhiteSpace c"
    by (simp add: isWhiteSpace_def)
  have e: "\<forall>c \<in> set (textInput initial_fetchers). isWhiteSpace c"
    by (simp add: initial_fetchers_def)
  show ?thesis
    using blank_submit_changes_nothing
      [where s = "initial_chained\<lparr>textInput := [0x20, 0x9, 0xA0, 0x3000]\<rparr>"
         and st = "sampleClock 0" and clk = sampleClock and result = "Throws (JsThrown JNull)"
         and t = initial_fetchers] w e
    by blast
qed

subsection \<open>A completed transcription\<close>



text \<open>
  The run on the submitting fetcher appends nothing, unless the fetcher still holds an
  earlier answer with an \<open>error\<close>.
\<close>

lemma fetchers_submitting_run:
  assumes "\<not> truthy (optProp (fdata (transcribeFetcher s)) (ustr ''error''))"
  shows "messages (transcribeSubmits_fetchers clk s) = messages s"
  using assms
  by (simp add: transcribeSubmits_fetchers_def transcribeEffect_fetchers_def onstop_def Let_def)






subsection \<open>Requests in flight\<close>

text \<open>
  While the transcription fetcher is busy, a submit and a press of the voice button change
  nothing in MainInterface.tsx; in part_001 the same holds while either fetcher is busy.
\<close>

lemma busy_blocks_submit:
  "(isTranscribing s \<longrightarrow>
      handleTextSubmit_chained_submit st s = s \<and> voiceButton_chained st out s = s) \<and>
   (isProcessing t \<longrightarrow>
      handleTextSubmit_fetchers st t = t \<and> voiceButton_fetchers st out t = t)"
  by (simp add: handleTextSubmit_chained_submit_def voiceButton_chained_def
        handleTextSubmit_fetchers_def voiceButton_fetchers_def)

text \<open>
  C3 on MainInterface.tsx. The guard of \<open>handleTextSubmit\<close> and the \<open>disabled\<close> of the voice
  button test the transcription fetcher only, and the text input is cleared when the reply
  has come. So while a reply is awaited, a submit of a non-blank input is accepted: it
  appends a \<open>user\<close> turn and issues one more request to \<open>/api/textmessage\<close>; and a press
  of the voice button starts a recording.
\<close>

theorem submit_while_awaiting_reply:
  "(controller_chained s = AwaitingReply \<and> trim (textInput s) \<noteq> [] \<longrightarrow>
      (\<exists>u. messages (handleTextSubmit_chained_submit st s) = messages s @ [u] \<and>
         type' u = User \<and> content u = JStr (textInput s)) \<and>
      network (handleTextSubmit_chained_submit st s) = network s @
        [NetRequest (ustr ''/api/textmessage'')
           (JsonPayload (JObj [(ustr ''message'', JStr (textInput s))]))] \<and>
      awaitingReply (handleTextSubmit_chained_submit st s) = Suc (awaitingReply s)) \<and>
   (controller_chained s = AwaitingReply \<longrightarrow>
      isRecording (voiceButton_chained st (Started tracks) s) \<and>
      mediaRecorderRef (voiceButton_chained st (Started tracks) s)
        = Some \<lparr>rstate = RRecording, stream = tracks\<rparr>)"
proof (intro conjI impI)
  assume h: "controller_chained s = AwaitingReply \<and> trim (textInput s) \<noteq> []"
  then have g: "\<not> (trim (textInput s) = [] \<or> isTranscribing s)"
    by (auto simp: controller_chained_def split: if_splits)
  then have run: "handleTextSubmit_chained_submit st s = handleTextSubmit_chained_send st s"
    by (simp add: handleTextSubmit_chained_submit_def)
  show "\<exists>u. messages (handleTextSubmit_chained_submit st s) = messages s @ [u] \<and>
         type' u = User \<and> content u = JStr (textInput s)"
    unfolding run using chained_send_appends [of st s] by simp
  show "network (handleTextSubmit_chained_submit st s) = network s @
        [NetRequest (ustr ''/api/textmessage'')
           (JsonPayload (JObj [(ustr ''message'', JStr (textInput s))]))]"
    unfolding run by (simp add: handleTextSubmit_chained_send_def addMessage_def)
  show "awaitingReply (handleTextSubmit_chained_submit st s) = Suc (awaitingReply s)"
    unfolding run using chained_send_appends [of st s] by simp
next
  assume "controller_chained s = AwaitingReply"
  then have g: "\<not> isRecording s" "\<not> isTranscribing s"
    by (auto simp: controller_chained_def split: if_splits)
  then show "isRecording (voiceButton_chained st (Started tracks) s)"
    by (simp add: voiceButton_chained_def handleVoiceClick_def startRecording_def)
  from g show "mediaRecorderRef (voiceButton_chained st (Started tracks) s)
        = Some \<lparr>rstate = RRecording, stream = tracks\<rparr>"
    by (simp add: voiceButton_chained_def handleVoiceClick_def startRecording_def)
qed

text \<open>
  \<open>hello\<close> submitted twice before any reply: two \<open>user\<close> turns and two requests.
\<close>

theorem submit_while_awaiting_reply_witness:
  "controller_chained
     (handleTextSubmit_chained_submit (sampleClock 0)
        (initial_chained\<lparr>textInput := ustr ''hello''\<rparr>)) = AwaitingReply \<and>
   map content (messages
     (handleTextSubmit_chained_submit (sampleClock 1)
        (handleTextSubmit_chained_submit (sampleClock 0)
           (initial_chained\<lparr>textInput := ustr ''hello''\<rparr>))))
     = [JStr (ustr ''hello''), JStr (ustr ''hello'')] \<and>
   network
     (handleTextSubmit_chained_submit (sampleClock 1)
        (handleTextSubmit_chained_submit (sampleClock 0)
           (initial_chained\<lparr>textInput := ustr ''hello''\<rparr>)))
     = [NetRequest (ustr ''/api/textmessage'')
          (JsonPayload (JObj [(ustr ''message'', JStr (ustr ''hello''))])),
        NetRequest (ustr ''/api/textmessage'')
          (JsonPayload (JObj [(ustr ''message'', JStr (ustr ''hello''))]))] \<and>
   isRecording (voiceButton_chained (sampleClock 1) (Started [Live])
     (handleTextSubmit_chained_submit (sampleClock 0)
        (initial_chained\<lparr>textInput := ustr ''hello''\<rparr>)))"
proof -
  let ?s1 = "handleTextSubmit_chained_submit (sampleClock 0)
        (initial_chained\<lparr>textInput := ustr ''hello''\<rparr>)"
  have s1: "controller_chained ?s1 = AwaitingReply" "textInput ?s1 = ustr ''hello''"
    "map content (messages ?s1) = [JStr (ustr ''hello'')]"
    "network ?s1 = [NetRequest (ustr ''/api/textmessage'')
          (JsonPayload (JObj [(ustr ''message'', JStr (ustr ''hello''))]))]"
    by (simp_all add: handleTextSubmit_chained_submit_def handleTextSubmit_chained_send_def
          controller_chained_def isTranscribing_def initial_chained_def addMessage_def
          trim_hello)
  have h: "controller_chained ?s1 = AwaitingReply \<and> trim (textInput ?s1) \<noteq> []"
    using s1 by (simp add: trim_hello)
  note T = submit_while_awaiting_reply
    [where s = ?s1 and st = "sampleClock 1" and tracks = "[Live]"]
  from T h obtain u where u:
    "messages (handleTextSubmit_chained_submit (sampleClock 1) ?s1) = messages ?s1 @ [u]"
    "content u = JStr (textInput ?s1)"
    by blast
  from T h have n: "network (handleTextSubmit_chained_submit (sampleClock 1) ?s1) = network ?s1 @
        [NetRequest (ustr ''/api/textmessage'')
           (JsonPayload (JObj [(ustr ''message'', JStr (textInput ?s1))]))]"
    by blast
  from T h have v: "isRecording (voiceButton_chained (sampleClock 1) (Started [Live]) ?s1)"
    by blast
  show ?thesis
    unfolding u n using s1 u(2) v by simp
qed

subsection \<open>A failed transcription\<close>

text \<open>
  C4 on MainInterface.tsx. When the backend cannot be reached or answers the
  transcription with a status outside 200-299, the chained relay answers, whatever the
  Together client would do, with status 500 and the body
  \<open>{error: "Failed to process request"}\<close>. On a body of that shape the effect reads
  \<open>response.transcription.error\<close> where \<open>response.transcription\<close> is \<open>undefined\<close>: it throws
  a \<open>TypeError\<close> and appends no turn.
\<close>

theorem failed_transcription_chained_throws:
  "(getFile formData = Some audioBlob \<and>
    ((\<exists>e. fetch formData = Throws e) \<or>
     (\<exists>response. fetch formData = Returns response \<and> \<not> ok response)) \<longrightarrow>
      action_transcribe_chained (Returns formData) fetch create
        = \<lparr>status = 500, body = errorBody (ustr ''Failed to process request'')\<rparr>) \<and>
   transcribeSettles_chained clk (errorBody m) s = Inl (typeError JUndefined (ustr ''error''))"
proof (intro conjI impI)
  assume "getFile formData = Some audioBlob \<and>
    ((\<exists>e. fetch formData = Throws e) \<or>
     (\<exists>response. fetch formData = Returns response \<and> \<not> ok response))"
  then show "action_transcribe_chained (Returns formData) fetch create
        = \<lparr>status = 500, body = errorBody (ustr ''Failed to process request'')\<rparr>"
    by (auto simp: action_transcribe_chained_def action_transcribe_chained_try_def
          andThen_def await_def)
next
  show "transcribeSettles_chained clk (errorBody m) s
      = Inl (typeError JUndefined (ustr ''error''))"
    by (simp add: transcribeSettles_chained_def transcribeEffect_chained_def errorBody_def
          Let_def andThen_def ustr_def)
qed

text \<open>
  The backend answering the sample recording with status 500.
\<close>

theorem failed_transcription_chained_throws_witness:
  "action_transcribe_chained (Returns sampleForm)
     (\<lambda>formData. Returns (Upstream 500 (Returns JNull))) (\<lambda>ms. Returns sampleCompletion)
     = \<lparr>status = 500, body = errorBody (ustr ''Failed to process request'')\<rparr> \<and>
   transcribeSettles_chained sampleClock (errorBody (ustr ''Failed to process request''))
     initial_chained
     = Inl (JsError (ustr ''Cannot read properties of undefined (reading '' @ [0x27] @
                     ustr ''error'' @ [0x27] @ ustr '')''))"
proof -
  have h: "getFile sampleForm = Some [0x1A, 0x45, 0xDF, 0xA3] \<and>
    ((\<exists>e. (\<lambda>formData. Returns (Upstream 500 (Returns JNull))) sampleForm = Throws e) \<or>
     (\<exists>response. (\<lambda>formData. Returns (Upstream 500 (Returns JNull))) sampleForm = Returns response \<and>
        \<not> ok response))"
    by (simp add: getFile_def sampleForm_def ok_def)
  note T = failed_transcription_chained_throws
    [where formData = sampleForm and audioBlob = "[0x1A, 0x45, 0xDF, 0xA3]"
       and fetch = "\<lambda>formData. Returns (Upstream 500 (Returns JNull))"
       and create = "\<lambda>ms. Returns sampleCompletion" and clk = sampleClock
       and m = "ustr ''Failed to process request''" and s = initial_chained]
  from T h show ?thesis
    by (simp add: typeError_def ustr_def)
qed

subsection \<open>Identifiers\<close>

text \<open>
  C8 on part_001 (lines 98-111). Both calls of \<open>addMessage\<close> in one run of
  \<open>handleTextSubmit\<close> read the \<open>messageCounter\<close> of the same render: the \<open>user\<close> turn and
  the \<open>assistant\<close> turn of every accepted submit get the same identifier.
\<close>

theorem counter_ids_repeat:
  "trim (textInput s) \<noteq> [] \<and> \<not> isTranscribing s \<longrightarrow>
     (\<exists>u a. messages (handleTextSubmit_counter dates s) = messages s @ [u, a] \<and>
        type' u = User \<and> type' a = Assistant \<and>
        id' u = ustr ''msg-'' @ decimal (messageCounter s) \<and>
        id' a = ustr ''msg-'' @ decimal (messageCounter s))"
  by (simp add: handleTextSubmit_counter_def addMessage_counter_def)

text \<open>
  The first submit: both turns have the identifier \<open>msg-0\<close>.
\<close>

theorem counter_ids_repeat_witness:
  "map id' (messages (handleTextSubmit_counter (\<lambda>n. 170 + n)
      (initial_counter\<lparr>textInput := ustr ''hello''\<rparr>))) = [ustr ''msg-0'', ustr ''msg-0'']"
proof -
  let ?s = "initial_counter\<lparr>textInput := ustr ''hello''\<rparr>"
  have h: "trim (textInput ?s) \<noteq> [] \<and> \<not> isTranscribing ?s"
    by (simp add: trim_hello initial_counter_def isTranscribing_def)
  have c: "messageCounter ?s = 0" "messages ?s = []"
    by (simp_all add: initial_counter_def)
  from counter_ids_repeat [where s = ?s and dates = "\<lambda>n. 170 + n"] h
  obtain u a where
    "messages (handleTextSubmit_counter (\<lambda>n. 170 + n) ?s) = messages ?s @ [u, a]"
    "id' u = ustr ''msg-'' @ decimal (messageCounter ?s)"
    "id' a = ustr ''msg-'' @ decimal (messageCounter ?s)"
    by blast
  then show ?thesis
    unfolding c by (simp add: decimal.simps ustr_def)
qed

subsection \<open>The recording session\<close>

text \<open>
  C9 as stated has the chunk buffer cleared when the session ends. After a start, one chunk
  and a stop, the buffer still holds the chunk.
\<close>

theorem stop_keeps_chunks:
  "chunksRef (stopRecording (ondataavailable [0x1A, 0x45, 0xDF, 0xA3]
      (startRecording (sampleClock 0) (Started [Live]) initial_chained)))
     = [[0x1A, 0x45, 0xDF, 0xA3]]"
  by (simp add: stopRecording_def ondataavailable_def startRecording_def initial_chained_def)

text \<open>
  C9, as the code has it. \<open>stopRecording\<close> on a running session makes the recorder inactive,
  stops every track of its stream and sets \<open>isRecording\<close> to false; the chunk buffer, the
  messages and the requests stay as they are. The buffer is emptied when a recording
  starts. When \<open>getUserMedia\<close> rejects, no stream was obtained: the recorder ref, the
  buffer and \<open>isRecording\<close> stay as they are, no request is issued and one \<open>assistant\<close>
  turn with the microphone error is appended.
\<close>

theorem recording_session_ends:
  "(isRecording s \<and> mediaRecorderRef s = Some r \<longrightarrow>
      (\<exists>r'. mediaRecorderRef (stopRecording s) = Some r' \<and> rstate r' = RInactive \<and>
         length (stream r') = length (stream r) \<and> (\<forall>t \<in> set (stream r'). t = Ended)) \<and>
      isRecording (stopRecording s) = False \<and>
      chunksRef (stopRecording s) = chunksRef s \<and>
      messages (stopRecording s) = messages s \<and>
      network (stopRecording s) = network s) \<and>
   chunksRef (startRecording st (Started tracks) s) = [] \<and>
   mediaRecorderRef (startRecording st (Started tracks) s)
     = Some \<lparr>rstate = RRecording, stream = tracks\<rparr> \<and>
   isRecording (startRecording st (Started tracks) s) = True \<and>
   mediaRecorderRef (startRecording st (GetUserMediaRejects e) s) = mediaRecorderRef s \<and>
   chunksRef (startRecording st (GetUserMediaRejects e) s) = chunksRef s \<and>
   isRecording (startRecording st (GetUserMediaRejects e) s) = isRecording s \<and>
   network (startRecording st (GetUserMediaRejects e) s) = network s \<and>
   (\<exists>a. messages (startRecording st (GetUserMediaRejects e) s) = messages s @ [a] \<and>
      type' a = Assistant \<and> content a = microphoneError)"
  by (auto simp: stopRecording_def startRecording_def addMessage_def)

text \<open>
  A session on a stream of two tracks, stopped after one chunk.
\<close>

theorem recording_session_ends_witness:
  "mediaRecorderRef (stopRecording (ondataavailable [0x1A, 0x45, 0xDF, 0xA3]
      (startRecording (sampleClock 0) (Started [Live, Live]) initial_chained)))
     = Some \<lparr>rstate = RInactive, stream = [Ended, Ended]\<rparr> \<and>
   isRecording (stopRecording (ondataavailable [0x1A, 0x45, 0xDF, 0xA3]
      (startRecording (sampleClock 0) (Started [Live, Live]) initial_chained))) = False"
proof -
  let ?s = "ondataavailable [0x1A, 0x45, 0xDF, 0xA3]
      (startRecording (sampleClock 0) (Started [Live, Live]) initial_chained)"
  have h: "isRecording ?s \<and>
      mediaRecorderRef ?s = Some \<lparr>rstate = RRecording, stream = [Live, Live]\<rparr>"
    by (simp add: ondataavailable_def startRecording_def)
  from recording_session_ends
    [where s = ?s and r = "\<lparr>rstate = RRecording, stream = [Live, Live]\<rparr>"] h
  obtain r' where r': "mediaRecorderRef (stopRecording ?s) = Some r'" "rstate r' = RInactive"
      "length (stream r') = length (stream \<lparr>rstate = RRecording, stream = [Live, Live]\<rparr>)"
      "\<forall>t \<in> set (stream r'). t = Ended"
    and f: "isRecording (stopRecording ?s) = False"
    by blast
  from r'(3,4) have "stream r' = [Ended, Ended]"
    by (cases "stream r'"; cases "tl (stream r')") auto
  with r'(2) have "r' = \<lparr>rstate = RInactive, stream = [Ended, Ended]\<rparr>"
    by (cases r') simp
  with r'(1) f show ?thesis by simp
qed

subsection \<open>The relay endpoints\<close>

lemma action_transcribe_eq:
  "action_transcribe request fetch =
     (case request of
        Throws e \<Rightarrow> \<lparr>status = 500, body = errorBody (ustr ''Failed to transcribe audio'')\<rparr>
      | Returns formData \<Rightarrow>
          (case getFile formData of
             None \<Rightarrow> \<lparr>status = 400, body = errorBody (ustr ''No audio file provided'')\<rparr>
           | Some audioBlob \<Rightarrow>
               (case fetch formData of
                  Throws e \<Rightarrow> \<lparr>status = 500, body = errorBody (ustr ''Failed to transcribe audio'')\<rparr>
                | Returns response \<Rightarrow>
                    if ok response
                    then (case up_json response of
                            Throws e \<Rightarrow> \<lparr>status = 500, body = errorBody (ustr ''Failed to transcribe audio'')\<rparr>
                          | Returns transcription \<Rightarrow> \<lparr>status = 200, body = transcription\<rparr>)
                    else \<lparr>status = 500, body = errorBody (ustr ''Failed to transcribe audio'')\<rparr>)))"
  by (simp add: action_transcribe_def action_transcribe_try_def andThen_def await_def
           split: outcome.splits option.splits)

lemma transcribe_relay_answers:
  "(status (action_transcribe request fetch) = 200 \<or>
    status (action_transcribe request fetch) = 400 \<or>
    status (action_transcribe request fetch) = 500) \<and>
   ((status (action_transcribe request fetch) = 400) =
      (\<exists>formData. request = Returns formData \<and> getFile formData = None)) \<and>
   ((status (action_transcribe request fetch) = 200) =
      (\<exists>formData audioBlob response transcription.
         request = Returns formData \<and> getFile formData = Some audioBlob \<and>
         fetch formData = Returns response \<and> ok response \<and>
         up_json response = Returns transcription)) \<and>
   (status (action_transcribe request fetch) = 400 \<longrightarrow>
      body (action_transcribe request fetch) = errorBody (ustr ''No audio file provided'')) \<and>
   (status (action_transcribe request fetch) = 500 \<longrightarrow>
      body (action_transcribe request fetch) = errorBody (ustr ''Failed to transcribe audio'')) \<and>
   (status (action_transcribe request fetch) = 200 \<longrightarrow>
      (\<exists>formData response. request = Returns formData \<and> fetch formData = Returns response \<and>
         up_json response = Returns (body (action_transcribe request fetch)))) \<and>
   ((\<exists>e. request = Throws e) \<longrightarrow> status (action_transcribe request fetch) = 500) \<and>
   ((\<exists>formData audioBlob. request = Returns formData \<and> getFile formData = Some audioBlob \<and>
       ((\<exists>e. fetch formData = Throws e) \<or>
        (\<exists>response. fetch formData = Returns response \<and>
           (\<not> ok response \<or> (\<exists>e. up_json response = Throws e))))) \<longrightarrow>
      status (action_transcribe request fetch) = 500)"
  unfolding action_transcribe_eq
  by (auto split: outcome.splits option.splits)

lemma action_process_text_eq:
  "action_process_text request fetch =
     (case request of
        Throws e \<Rightarrow> \<lparr>status = 500, body = errorBody (ustr ''Failed to process text'')\<rparr>
      | Returns b \<Rightarrow>
          (case getProp b (ustr ''text'') of
             Inl e \<Rightarrow> \<lparr>status = 500, body = errorBody (ustr ''Failed to process text'')\<rparr>
           | Inr text \<Rightarrow>
               (case fetch (stringifyObj [(ustr ''text'', text)]) of
                  Throws e \<Rightarrow> \<lparr>status = 500, body = errorBody (ustr ''Failed to process text'')\<rparr>
                | Returns response \<Rightarrow>
                    if ok response
                    then (case up_json response of
                            Throws e \<Rightarrow> \<lparr>status = 500, body = errorBody (ustr ''Failed to process text'')\<rparr>
                          | Returns result \<Rightarrow> \<lparr>status = 200, body = result\<rparr>)
                    else \<lparr>status = 500, body = errorBody (ustr ''Failed to process text'')\<rparr>)))"
  by (simp add: action_process_text_def action_process_text_try_def andThen_def await_def
           split: outcome.splits sum.splits)

lemma process_text_relay_answers:
  "(status (action_process_text jrequest jfetch) = 200 \<or>
    status (action_process_text jrequest jfetch) = 500) \<and>
   ((status (action_process_text jrequest jfetch) = 200) =
      (\<exists>b text response result.
         jrequest = Returns b \<and> getProp b (ustr ''text'') = Inr text \<and>
         jfetch (stringifyObj [(ustr ''text'', text)]) = Returns response \<and> ok response \<and>
         up_json response = Returns result)) \<and>
   (status (action_process_text jrequest jfetch) = 500 \<longrightarrow>
      body (action_process_text jrequest jfetch) = errorBody (ustr ''Failed to process text'')) \<and>
   (status (action_process_text jrequest jfetch) = 200 \<longrightarrow>
      (\<exists>b text response. jrequest = Returns b \<and> getProp b (ustr ''text'') = Inr text \<and>
         jfetch (stringifyObj [(ustr ''text'', text)]) = Returns response \<and>
         up_json response = Returns (body (action_process_text jrequest jfetch)))) \<and>
   ((\<exists>e. jrequest = Throws e) \<longrightarrow> status (action_process_text jrequest jfetch) = 500) \<and>
   ((\<exists>b text. jrequest = Returns b \<and> getProp b (ustr ''text'') = Inr text \<and>
       ((\<exists>e. jfetch (stringifyObj [(ustr ''text'', text)]) = Throws e) \<or>
        (\<exists>response. jfetch (stringifyObj [(ustr ''text'', text)]) = Returns response \<and>
           (\<not> ok response \<or> (\<exists>e. up_json response = Throws e))))) \<longrightarrow>
      status (action_process_text jrequest jfetch) = 500)"
  unfolding action_process_text_eq
  by (auto split: outcome.splits sum.splits)

lemma action_textmessage_eq:
  "action_textmessage request create =
     (case request of
        Throws e \<Rightarrow> \<lparr>status = 500, body = errorBody (messageOr (ustr ''Unknown error'') e)\<rparr>
      | Returns b \<Rightarrow>
          (case destructure b (ustr ''message'') of
             Inl e \<Rightarrow> \<lparr>status = 500, body = errorBody (messageOr (ustr ''Unknown error'') e)\<rparr>
           | Inr m \<Rightarrow>
               if \<not> truthy m
               then \<lparr>status = 400, body = errorBody (ustr ''Message is required'')\<rparr>
               else (case create [DeepSeekMessage RoleUser m] of
                       Throws e \<Rightarrow>
                         \<lparr>status = 500,
                          body = errorBody (messageOr (ustr ''Unknown error occurred'') e)\<rparr>
                     | Returns response \<Rightarrow>
                         (case firstChoiceMessage response of
                            Inl e \<Rightarrow>
                              \<lparr>status = 500,
                               body = errorBody (messageOr (ustr ''Unknown error occurred'') e)\<rparr>
                          | Inr reply \<Rightarrow>
                              \<lparr>status = 200, body = resultJson (DeepSeekResponse reply True)\<rparr>))))"
  by (simp add: action_textmessage_def action_textmessage_try_def andThen_def await_def
        queryDeepSeek_def queryDeepSeek_try_def
        split: outcome.splits sum.splits)

lemma textmessage_relay_answers:
  "(status (action_textmessage mrequest create) = 200 \<or>
    status (action_textmessage mrequest create) = 400 \<or>
    status (action_textmessage mrequest create) = 500) \<and>
   ((status (action_textmessage mrequest create) = 400) =
      (\<exists>b m. mrequest = Returns b \<and> destructure b (ustr ''message'') = Inr m \<and> \<not> truthy m)) \<and>
   ((status (action_textmessage mrequest create) = 200) =
      (\<exists>b m response reply.
         mrequest = Returns b \<and> destructure b (ustr ''message'') = Inr m \<and> truthy m \<and>
         create [DeepSeekMessage RoleUser m] = Returns response \<and>
         firstChoiceMessage response = Inr reply)) \<and>
   (status (action_textmessage mrequest create) = 400 \<longrightarrow>
      body (action_textmessage mrequest create) = errorBody (ustr ''Message is required'')) \<and>
   (status (action_textmessage mrequest create) = 500 \<longrightarrow>
      (\<exists>m. body (action_textmessage mrequest create) = errorBody m)) \<and>
   (status (action_textmessage mrequest create) = 200 \<longrightarrow>
      (\<exists>reply. body (action_textmessage mrequest create)
                  = resultJson (DeepSeekResponse reply True))) \<and>
   ((\<exists>e. mrequest = Throws e) \<longrightarrow> status (action_textmessage mrequest create) = 500) \<and>
   ((\<exists>b m. mrequest = Returns b \<and> destructure b (ustr ''message'') = Inr m \<and> truthy m \<and>
       (\<exists>e. create [DeepSeekMessage RoleUser m] = Throws e)) \<longrightarrow>
      status (action_textmessage mrequest create) = 500)"
  unfolding action_textmessage_eq
  by (auto split: outcome.splits sum.splits)

lemma queryDeepSeek_not_Inl: "queryDeepSeek create msgs \<noteq> Inl e"
  using queryDeepSeek_total [of create msgs] by auto

lemma action_transcribe_chained_eq:
  "action_transcribe_chained request fetch create =
     (case request of
        Throws e \<Rightarrow> \<lparr>status = 500, body = errorBody (ustr ''Failed to process request'')\<rparr>
      | Returns formData \<Rightarrow>
          (case getFile formData of
             None \<Rightarrow> \<lparr>status = 400, body = errorBody (ustr ''No audio file provided'')\<rparr>
           | Some audioBlob \<Rightarrow>
               (case fetch formData of
                  Throws e \<Rightarrow> \<lparr>status = 500, body = errorBody (ustr ''Failed to process request'')\<rparr>
                | Returns response \<Rightarrow>
                    if ok response
                    then (case up_json response of
                            Throws e \<Rightarrow>
                              \<lparr>status = 500, body = errorBody (ustr ''Failed to process request'')\<rparr>
                          | Returns transcriptionData \<Rightarrow>
                              (case getProp transcriptionData (ustr ''text'') of
                                 Inl e \<Rightarrow>
                                   \<lparr>status = 500,
                                    body = errorBody (ustr ''Failed to process request'')\<rparr>
                               | Inr text \<Rightarrow>
                                   (case queryDeepSeek create [DeepSeekMessage RoleUser text] of
                                      Inl e \<Rightarrow>
                                        \<lparr>status = 500,
                                         body = errorBody (ustr ''Failed to process request'')\<rparr>
                                    | Inr deepseekResponse \<Rightarrow>
                                        \<lparr>status = 200,
                                         body = stringifyObj
                                           [(ustr ''transcription'', transcriptionData),
                                            (ustr ''response'', resultJson deepseekResponse)]\<rparr>)))
                    else \<lparr>status = 500, body = errorBody (ustr ''Failed to process request'')\<rparr>)))"
  by (simp add: action_transcribe_chained_def action_transcribe_chained_try_def andThen_def
        await_def split: outcome.splits option.splits sum.splits)

lemma chained_relay_answers:
  "(status (action_transcribe_chained crequest cfetch ccreate) = 200 \<or>
    status (action_transcribe_chained crequest cfetch ccreate) = 400 \<or>
    status (action_transcribe_chained crequest cfetch ccreate) = 500) \<and>
   ((status (action_transcribe_chained crequest cfetch ccreate) = 400) =
      (\<exists>formData. crequest = Returns formData \<and> getFile formData = None)) \<and>
   ((status (action_transcribe_chained crequest cfetch ccreate) = 200) =
      (\<exists>formData audioBlob response transcriptionData text.
         crequest = Returns formData \<and> getFile formData = Some audioBlob \<and>
         cfetch formData = Returns response \<and> ok response \<and>
         up_json response = Returns transcriptionData \<and>
         getProp transcriptionData (ustr ''text'') = Inr text)) \<and>
   (status (action_transcribe_chained crequest cfetch ccreate) = 400 \<longrightarrow>
      body (action_transcribe_chained crequest cfetch ccreate)
        = errorBody (ustr ''No audio file provided'')) \<and>
   (status (action_transcribe_chained crequest cfetch ccreate) = 500 \<longrightarrow>
      body (action_transcribe_chained crequest cfetch ccreate)
        = errorBody (ustr ''Failed to process request'')) \<and>
   (status (action_transcribe_chained crequest cfetch ccreate) = 200 \<longrightarrow>
      (\<exists>formData response transcriptionData text deepseekResponse.
         crequest = Returns formData \<and> cfetch formData = Returns response \<and>
         up_json response = Returns transcriptionData \<and>
         getProp transcriptionData (ustr ''text'') = Inr text \<and>
         queryDeepSeek ccreate [DeepSeekMessage RoleUser text] = Inr deepseekResponse \<and>
         body (action_transcribe_chained crequest cfetch ccreate)
           = stringifyObj [(ustr ''transcription'', transcriptionData),
                           (ustr ''response'', resultJson deepseekResponse)])) \<and>
   ((\<exists>e. crequest = Throws e) \<longrightarrow>
      status (action_transcribe_chained crequest cfetch ccreate) = 500) \<and>
   ((\<exists>formData audioBlob. crequest = Returns formData \<and> getFile formData = Some audioBlob \<and>
       ((\<exists>e. cfetch formData = Throws e) \<or>
        (\<exists>response. cfetch formData = Returns response \<and>
           (\<not> ok response \<or> (\<exists>e. up_json response = Throws e) \<or>
            (\<exists>transcriptionData e. up_json response = Returns transcriptionData \<and>
               getProp transcriptionData (ustr ''text'') = Inl e))))) \<longrightarrow>
      status (action_transcribe_chained crequest cfetch ccreate) = 500) \<and>
   (\<forall>formData audioBlob response transcriptionData text e.
      crequest = Returns formData \<and> getFile formData = Some audioBlob \<and>
      cfetch formData = Returns response \<and> ok response \<and>
      up_json response = Returns transcriptionData \<and>
      getProp transcriptionData (ustr ''text'') = Inr text \<and>
      ccreate [DeepSeekMessage RoleUser text] = Throws e \<longrightarrow>
      action_transcribe_chained crequest cfetch ccreate
        = \<lparr>status = 200,
           body = stringifyObj
             [(ustr ''transcription'', transcriptionData),
              (ustr ''response'',
               resultJson (DeepSeekError (messageOr (ustr ''Unknown error occurred'') e)
                             (Some 500)))]\<rparr>)"
  unfolding action_transcribe_chained_eq
  by (auto simp: queryDeepSeek_not_Inl queryDeepSeek_Throws
        split: outcome.splits option.splits sum.splits)

text \<open>
  C5, as the code has it. Each relay answers with a JSON body and one of the statuses it
  can give. The plain transcription relay answers 400 exactly when the form was read and
  has no file under \<open>file\<close>, 200 with the backend's JSON, and 500 with a fixed error body
  otherwise: when the form cannot be read, when the backend cannot be reached, answers
  with a status outside 200-299 or with a body that is not JSON. The chained transcription
  relay answers 400 and 500 in the same cases, and 500 also when the backend's JSON is
  \<open>null\<close>; it answers 200 with the transcription and the result of \<open>queryDeepSeek\<close>
  otherwise, also when the model call fails: the answer then has status 200 and carries
  the error value, with code 500, as its \<open>response\<close>. The process-text relay
  checks nothing about its input: it answers 200 with the backend's JSON or 500 with a
  fixed error body, never 400. The text-message relay answers 400 exactly when the body
  was read and its \<open>message\<close> is falsy, 200 with the reply, and 500 with an error body
  otherwise, a failed model call included.
\<close>

theorem relay_answers:
  "((status (action_transcribe request fetch) = 200 \<or>
    status (action_transcribe request fetch) = 400 \<or>
    status (action_transcribe request fetch) = 500) \<and>
   ((status (action_transcribe request fetch) = 400) =
      (\<exists>formData. request = Returns formData \<and> getFile formData = None)) \<and>
   ((status (action_transcribe request fetch) = 200) =
      (\<exists>formData audioBlob response transcription.
         request = Returns formData \<and> getFile formData = Some audioBlob \<and>
         fetch formData = Returns response \<and> ok response \<and>
         up_json response = Returns transcription)) \<and>
   (status (action_transcribe request fetch) = 400 \<longrightarrow>
      body (action_transcribe request fetch) = errorBody (ustr ''No audio file provided'')) \<and>
   (status (action_transcribe request fetch) = 500 \<longrightarrow>
      body (action_transcribe request fetch) = errorBody (ustr ''Failed to transcribe audio'')) \<and>
   (status (action_transcribe request fetch) = 200 \<longrightarrow>
      (\<exists>formData response. request = Returns formData \<and> fetch formData = Returns response \<and>
         up_json response = Returns (body (action_transcribe request fetch)))) \<and>
   ((\<exists>e. request = Throws e) \<longrightarrow> status (action_transcribe request fetch) = 500) \<and>
   ((\<exists>formData audioBlob. request = Returns formData \<and> getFile formData = Some audioBlob \<and>
       ((\<exists>e. fetch formData = Throws e) \<or>
        (\<exists>response. fetch formData = Returns response \<and>
           (\<not> ok response \<or> (\<exists>e. up_json response = Throws e))))) \<longrightarrow>
      status (action_transcribe request fetch) = 500)) \<and>
   ((status (action_transcribe_chained crequest cfetch ccreate) = 200 \<or>
     status (action_transcribe_chained crequest cfetch ccreate) = 400 \<or>
     status (action_transcribe_chained crequest cfetch ccreate) = 500) \<and>
    ((status (action_transcribe_chained crequest cfetch ccreate) = 400) =
       (\<exists>formData. crequest = Returns formData \<and> getFile formData = None)) \<and>
    ((status (action_transcribe_chained crequest cfetch ccreate) = 200) =
       (\<exists>formData audioBlob response transcriptionData text.
          crequest = Returns formData \<and> getFile formData = Some audioBlob \<and>
          cfetch formData = Returns response \<and> ok response \<and>
          up_json response = Returns transcriptionData \<and>
          getProp transcriptionData (ustr ''text'') = Inr text)) \<and>
    (status (action_transcribe_chained crequest cfetch ccreate) = 400 \<longrightarrow>
       body (action_transcribe_chained crequest cfetch ccreate)
         = errorBody (ustr ''No audio file provided'')) \<and>
    (status (action_transcribe_chained crequest cfetch ccreate) = 500 \<longrightarrow>
       body (action_transcribe_chained crequest cfetch ccreate)
         = errorBody (ustr ''Failed to process request'')) \<and>
    (status (action_transcribe_chained crequest cfetch ccreate) = 200 \<longrightarrow>
       (\<exists>formData response transcriptionData text deepseekResponse.
          crequest = Returns formData \<and> cfetch formData = Returns response \<and>
          up_json response = Returns transcriptionData \<and>
          getProp transcriptionData (ustr ''text'') = Inr text \<and>
          queryDeepSeek ccreate [DeepSeekMessage RoleUser text] = Inr deepseekResponse \<and>
          body (action_transcribe_chained crequest cfetch ccreate)
            = stringifyObj [(ustr ''transcription'', transcriptionData),
                            (ustr ''response'', resultJson deepseekResponse)])) \<and>
    ((\<exists>e. crequest = Throws e) \<longrightarrow>
       status (action_transcribe_chained crequest cfetch ccreate) = 500) \<and>
    ((\<exists>formData audioBlob. crequest = Returns formData \<and> getFile formData = Some audioBlob \<and>
        ((\<exists>e. cfetch formData = Throws e) \<or>
         (\<exists>response. cfetch formData = Returns response \<and>
            (\<not> ok response \<or> (\<exists>e. up_json response = Throws e) \<or>
             (\<exists>transcriptionData e. up_json response = Returns transcriptionData \<and>
                getProp transcriptionData (ustr ''text'') = Inl e))))) \<longrightarrow>
       status (action_transcribe_chained crequest cfetch ccreate) = 500) \<and>
    (\<forall>formData audioBlob response transcriptionData text e.
       crequest = Returns formData \<and> getFile formData = Some audioBlob \<and>
       cfetch formData = Returns response \<and> ok response \<and>
       up_json response = Returns transcriptionData \<and>
       getProp transcriptionData (ustr ''text'') = Inr text \<and>
       ccreate [DeepSeekMessage RoleUser text] = Throws e \<longrightarrow>
       action_transcribe_chained crequest cfetch ccreate
         = \<lparr>status = 200,
            body = stringifyObj
              [(ustr ''transcription'', transcriptionData),
               (ustr ''response'',
                resultJson (DeepSeekError (messageOr (ustr ''Unknown error occurred'') e)
                              (Some 500)))]\<rparr>)) \<and>
   ((status (action_process_text jrequest jfetch) = 200 \<or>
    status (action_process_text jrequest jfetch) = 500) \<and>
   ((status (action_process_text jrequest jfetch) = 200) =
      (\<exists>b text response result.
         jrequest = Returns b \<and> getProp b (ustr ''text'') = Inr text \<and>
         jfetch (stringifyObj [(ustr ''text'', text)]) = Returns response \<and> ok response \<and>
         up_json response = Returns result)) \<and>
   (status (action_process_text jrequest jfetch) = 500 \<longrightarrow>
      body (action_process_text jrequest jfetch) = errorBody (ustr ''Failed to process text'')) \<and>
   (status (action_process_text jrequest jfetch) = 200 \<longrightarrow>
      (\<exists>b text response. jrequest = Returns b \<and> getProp b (ustr ''text'') = Inr text \<and>
         jfetch (stringifyObj [(ustr ''text'', text)]) = Returns response \<and>
         up_json response = Returns (body (action_process_text jrequest jfetch)))) \<and>
   ((\<exists>e. jrequest = Throws e) \<longrightarrow> status (action_process_text jrequest jfetch) = 500) \<and>
   ((\<exists>b text. jrequest = Returns b \<and> getProp b (ustr ''text'') = Inr text \<and>
       ((\<exists>e. jfetch (stringifyObj [(ustr ''text'', text)]) = Throws e) \<or>
        (\<exists>response. jfetch (stringifyObj [(ustr ''text'', text)]) = Returns response \<and>
           (\<not> ok response \<or> (\<exists>e. up_json response = Throws e))))) \<longrightarrow>
      status (action_process_text jrequest jfetch) = 500)) \<and>
   ((status (action_textmessage mrequest create) = 200 \<or>
    status (action_textmessage mrequest create) = 400 \<or>
    status (action_textmessage mrequest create) = 500) \<and>
   ((status (action_textmessage mrequest create) = 400) =
      (\<exists>b m. mrequest = Returns b \<and> destructure b (ustr ''message'') = Inr m \<and> \<not> truthy m)) \<and>
   ((status (action_textmessage mrequest create) = 200) =
      (\<exists>b m response reply.
         mrequest = Returns b \<and> destructure b (ustr ''message'') = Inr m \<and> truthy m \<and>
         create [DeepSeekMessage RoleUser m] = Returns response \<and>
         firstChoiceMessage response = Inr reply)) \<and>
   (status (action_textmessage mrequest create) = 400 \<longrightarrow>
      body (action_textmessage mrequest create) = errorBody (ustr ''Message is required'')) \<and>
   (status (action_textmessage mrequest create) = 500 \<longrightarrow>
      (\<exists>m. body (action_textmessage mrequest create) = errorBody m)) \<and>
   (status (action_textmessage mrequest create) = 200 \<longrightarrow>
      (\<exists>reply. body (action_textmessage mrequest create)
                  = resultJson (DeepSeekResponse reply True))) \<and>
   ((\<exists>e. mrequest = Throws e) \<longrightarrow> status (action_textmessage mrequest create) = 500) \<and>
   ((\<exists>b m. mrequest = Returns b \<and> destructure b (ustr ''message'') = Inr m \<and> truthy m \<and>
       (\<exists>e. create [DeepSeekMessage RoleUser m] = Throws e)) \<longrightarrow>
      status (action_textmessage mrequest create) = 500))"
  by (rule conjI, rule transcribe_relay_answers, rule conjI, rule chained_relay_answers,
      rule conjI, rule process_text_relay_answers, rule textmessage_relay_answers)

text \<open>
  At each relay: a request without the input, a request the backend answers, and a request
  on which the backend or the client fails; at the chained relay, also a request on which
  the model call alone fails.
\<close>

theorem relay_answers_witness:
  "status (action_transcribe (Returns []) (\<lambda>formData. Throws (JsThrown JNull))) = 400 \<and>
   body (action_transcribe (Returns []) (\<lambda>formData. Throws (JsThrown JNull)))
     = errorBody (ustr ''No audio file provided'') \<and>
   status (action_transcribe (Returns sampleForm)
             (\<lambda>formData. Returns (Upstream 200 (Returns sampleTranscription)))) = 200 \<and>
   body (action_transcribe (Returns sampleForm)
             (\<lambda>formData. Returns (Upstream 200 (Returns sampleTranscription))))
     = sampleTranscription \<and>
   status (action_transcribe (Returns sampleForm)
             (\<lambda>formData. Returns (Upstream 503 (Throws (JsThrown JNull))))) = 500 \<and>
   body (action_transcribe (Returns sampleForm)
             (\<lambda>formData. Returns (Upstream 503 (Throws (JsThrown JNull)))))
     = errorBody (ustr ''Failed to transcribe audio'') \<and>
   status (action_process_text (Throws (JsError (ustr ''Unexpected end of JSON input'')))
             (\<lambda>sent. Throws (JsThrown JNull))) = 500 \<and>
   body (action_process_text (Throws (JsError (ustr ''Unexpected end of JSON input'')))
             (\<lambda>sent. Throws (JsThrown JNull)))
     = errorBody (ustr ''Failed to process text'') \<and>
   status (action_process_text (Returns (JObj [(ustr ''text'', JStr (ustr ''hello''))]))
             (\<lambda>sent. Returns (Upstream 200 (Returns sampleFetcherAnswer)))) = 200 \<and>
   body (action_process_text (Returns (JObj [(ustr ''text'', JStr (ustr ''hello''))]))
             (\<lambda>sent. Returns (Upstream 200 (Returns sampleFetcherAnswer))))
     = sampleFetcherAnswer \<and>
   status (action_textmessage (Returns (JObj [])) (\<lambda>ms. Returns sampleCompletion)) = 400 \<and>
   body (action_textmessage (Returns (JObj [])) (\<lambda>ms. Returns sampleCompletion))
     = errorBody (ustr ''Message is required'') \<and>
   status (action_textmessage (Returns (JObj [(ustr ''message'', JStr (ustr ''hello''))]))
             (\<lambda>ms. Returns sampleCompletion)) = 200 \<and>
   status (action_textmessage (Returns (JObj [(ustr ''message'', JStr (ustr ''hello''))]))
             (\<lambda>ms. Throws (JsError (ustr ''401 Unauthorized'')))) = 500 \<and>
   action_transcribe_chained (Returns [])
     (\<lambda>formData. Throws (JsThrown JNull)) (\<lambda>ms. Returns sampleCompletion)
     = \<lparr>status = 400, body = errorBody (ustr ''No audio file provided'')\<rparr> \<and>
   action_transcribe_chained (Returns sampleForm)
     (\<lambda>formData. Returns (Upstream 200 (Returns sampleTranscription)))
     (\<lambda>ms. Returns sampleCompletion)
     = \<lparr>status = 200, body = sampleChainedAnswer\<rparr> \<and>
   action_transcribe_chained (Returns sampleForm)
     (\<lambda>formData. Returns (Upstream 503 (Throws (JsThrown JNull))))
     (\<lambda>ms. Returns sampleCompletion)
     = \<lparr>status = 500, body = errorBody (ustr ''Failed to process request'')\<rparr> \<and>
   action_transcribe_chained (Returns sampleForm)
     (\<lambda>formData. Returns (Upstream 200 (Returns sampleTranscription)))
     (\<lambda>ms. Throws (JsError (ustr ''401 Unauthorized'')))
     = \<lparr>status = 200,
        body = JObj [(ustr ''transcription'', sampleTranscription),
                     (ustr ''response'',
                      JObj [(ustr ''error'', JStr (ustr ''401 Unauthorized'')),
                            (ustr ''code'', JNum 500)])]\<rparr>"
proof -
  note T1 = relay_answers
    [where request = "Returns []" and fetch = "\<lambda>formData. Throws (JsThrown JNull)"
       and jrequest = "Throws (JsError (ustr ''Unexpected end of JSON input''))"
       and jfetch = "\<lambda>sent. Throws (JsThrown JNull)"
       and mrequest = "Returns (JObj [])" and create = "\<lambda>ms. Returns sampleCompletion"
       and crequest = "Returns []" and cfetch = "\<lambda>formData. Throws (JsThrown JNull)"
       and ccreate = "\<lambda>ms. Returns sampleCompletion"]
  note T2 = relay_answers
    [where request = "Returns sampleForm"
       and fetch = "\<lambda>formData. Returns (Upstream 200 (Returns sampleTranscription))"
       and jrequest = "Returns (JObj [(ustr ''text'', JStr (ustr ''hello''))])"
       and jfetch = "\<lambda>sent. Returns (Upstream 200 (Returns sampleFetcherAnswer))"
       and mrequest = "Returns (JObj [(ustr ''message'', JStr (ustr ''hello''))])"
       and create = "\<lambda>ms. Returns sampleCompletion"
       and crequest = "Returns sampleForm"
       and cfetch = "\<lambda>formData. Returns (Upstream 200 (Returns sampleTranscription))"
       and ccreate = "\<lambda>ms. Returns sampleCompletion"]
  note T3 = relay_answers
    [where request = "Returns sampleForm"
       and fetch = "\<lambda>formData. Returns (Upstream 503 (Throws (JsThrown JNull)))"
       and mrequest = "Returns (JObj [(ustr ''message'', JStr (ustr ''hello''))])"
       and create = "\<lambda>ms. Throws (JsError (ustr ''401 Unauthorized''))"
       and crequest = "Returns sampleForm"
       and cfetch = "\<lambda>formData. Returns (Upstream 503 (Throws (JsThrown JNull)))"
       and ccreate = "\<lambda>ms. Returns sampleCompletion"]
  note T4 = relay_answers
    [where crequest = "Returns sampleForm"
       and cfetch = "\<lambda>formData. Returns (Upstream 200 (Returns sampleTranscription))"
       and ccreate = "\<lambda>ms. Throws (JsError (ustr ''401 Unauthorized''))"]
  have fl: "getFile sampleForm = Some [0x1A, 0x45, 0xDF, 0xA3]" "getFile [] = None"
    by (simp_all add: getFile_def sampleForm_def)
  have oks: "ok (Upstream 200 (Returns sampleTranscription))"
    "ok (Upstream 200 (Returns sampleFetcherAnswer))"
    "\<not> ok (Upstream 503 (Throws (JsThrown JNull)))"
    by (simp_all add: ok_def)
  have msg: "destructure (JObj []) (ustr ''message'') = Inr JUndefined"
    "destructure (JObj [(ustr ''message'', JStr (ustr ''hello''))]) (ustr ''message'')
       = Inr (JStr (ustr ''hello''))"
    "truthy (JStr (ustr ''hello''))" "\<not> truthy JUndefined"
    "getProp (JObj [(ustr ''text'', JStr (ustr ''hello''))]) (ustr ''text'')
       = Inr (JStr (ustr ''hello''))"
    "firstChoiceMessage sampleCompletion = Inr sampleReply"
    by (simp_all add: destructure_def ustr_def firstChoiceMessage_def sampleCompletion_def
          andThen_def)
  note A1 = T1 [THEN conjunct1] and C1 = T1 [THEN conjunct2, THEN conjunct1]
    and P1 = T1 [THEN conjunct2, THEN conjunct2, THEN conjunct1]
    and M1 = T1 [THEN conjunct2, THEN conjunct2, THEN conjunct2]
  note A2 = T2 [THEN conjunct1] and C2 = T2 [THEN conjunct2, THEN conjunct1]
    and P2 = T2 [THEN conjunct2, THEN conjunct2, THEN conjunct1]
    and M2 = T2 [THEN conjunct2, THEN conjunct2, THEN conjunct2]
  note A3 = T3 [THEN conjunct1] and C3 = T3 [THEN conjunct2, THEN conjunct1]
    and M3 = T3 [THEN conjunct2, THEN conjunct2, THEN conjunct2]
  note C4 = T4 [THEN conjunct2, THEN conjunct1]
  have a: "status (action_transcribe (Returns []) (\<lambda>formData. Throws (JsThrown JNull))) = 400"
    using A1 [THEN conjunct2, THEN conjunct1] fl(2) by simp
  have a': "body (action_transcribe (Returns []) (\<lambda>formData. Throws (JsThrown JNull)))
     = errorBody (ustr ''No audio file provided'')"
    using A1 [THEN conjunct2, THEN conjunct2, THEN conjunct2, THEN conjunct1] a by simp
  have b: "status (action_transcribe (Returns sampleForm)
             (\<lambda>formData. Returns (Upstream 200 (Returns sampleTranscription)))) = 200"
    using A2 [THEN conjunct2, THEN conjunct2, THEN conjunct1] fl(1) oks(1) by simp
  have b': "body (action_transcribe (Returns sampleForm)
             (\<lambda>formData. Returns (Upstream 200 (Returns sampleTranscription))))
     = sampleTranscription"
    using A2 [THEN conjunct2, THEN conjunct2, THEN conjunct2, THEN conjunct2, THEN conjunct2,
              THEN conjunct1] b by simp
  have c: "status (action_transcribe (Returns sampleForm)
             (\<lambda>formData. Returns (Upstream 503 (Throws (JsThrown JNull))))) = 500"
    using A3 [THEN conjunct2, THEN conjunct2, THEN conjunct2, THEN conjunct2, THEN conjunct2,
              THEN conjunct2, THEN conjunct2] fl(1) oks(3) by simp
  have c': "body (action_transcribe (Returns sampleForm)
             (\<lambda>formData. Returns (Upstream 503 (Throws (JsThrown JNull)))))
     = errorBody (ustr ''Failed to transcribe audio'')"
    using A3 [THEN conjunct2, THEN conjunct2, THEN conjunct2, THEN conjunct2, THEN conjunct1] c
    by simp
  have d: "status (action_process_text (Throws (JsError (ustr ''Unexpected end of JSON input'')))
             (\<lambda>sent. Throws (JsThrown JNull))) = 500"
    using P1 [THEN conjunct2, THEN conjunct2, THEN conjunct2, THEN conjunct2, THEN conjunct1]
    by simp
  have d': "body (action_process_text (Throws (JsError (ustr ''Unexpected end of JSON input'')))
             (\<lambda>sent. Throws (JsThrown JNull)))
     = errorBody (ustr ''Failed to process text'')"
    using P1 [THEN conjunct2, THEN conjunct2, THEN conjunct1] d by simp
  have e: "status (action_process_text (Returns (JObj [(ustr ''text'', JStr (ustr ''hello''))]))
             (\<lambda>sent. Returns (Upstream 200 (Returns sampleFetcherAnswer)))) = 200"
    using P2 [THEN conjunct2, THEN conjunct1] msg(5) oks(2) by simp
  have e': "body (action_process_text (Returns (JObj [(ustr ''text'', JStr (ustr ''hello''))]))
             (\<lambda>sent. Returns (Upstream 200 (Returns sampleFetcherAnswer))))
     = sampleFetcherAnswer"
    using P2 [THEN conjunct2, THEN conjunct2, THEN conjunct2, THEN conjunct1] e msg(5) by simp
  have f: "status (action_textmessage (Returns (JObj [])) (\<lambda>ms. Returns sampleCompletion)) = 400"
    using M1 [THEN conjunct2, THEN conjunct1] msg(1,4) by simp
  have f': "body (action_textmessage (Returns (JObj [])) (\<lambda>ms. Returns sampleCompletion))
     = errorBody (ustr ''Message is required'')"
    using M1 [THEN conjunct2, THEN conjunct2, THEN conjunct2, THEN conjunct1] f by simp
  have g: "status (action_textmessage (Returns (JObj [(ustr ''message'', JStr (ustr ''hello''))]))
             (\<lambda>ms. Returns sampleCompletion)) = 200"
    using M2 [THEN conjunct2, THEN conjunct2, THEN conjunct1] msg(2,3,6) by simp
  have h: "status (action_textmessage (Returns (JObj [(ustr ''message'', JStr (ustr ''hello''))]))
             (\<lambda>ms. Throws (JsError (ustr ''401 Unauthorized'')))) = 500"
    using M3 [THEN conjunct2, THEN conjunct2, THEN conjunct2, THEN conjunct2, THEN conjunct2,
              THEN conjunct2, THEN conjunct2] msg(2,3) by simp
  have tx: "getProp sampleTranscription (ustr ''text'') = Inr (JStr (ustr ''hello''))"
    by (simp add: sampleTranscription_def ustr_def)
  have i: "status (action_transcribe_chained (Returns [])
             (\<lambda>formData. Throws (JsThrown JNull)) (\<lambda>ms. Returns sampleCompletion)) = 400"
    using C1 [THEN conjunct2, THEN conjunct1] fl(2) by simp
  have i': "body (action_transcribe_chained (Returns [])
             (\<lambda>formData. Throws (JsThrown JNull)) (\<lambda>ms. Returns sampleCompletion))
     = errorBody (ustr ''No audio file provided'')"
    using C1 [THEN conjunct2, THEN conjunct2, THEN conjunct2, THEN conjunct1] i by simp
  have j: "status (action_transcribe_chained (Returns sampleForm)
             (\<lambda>formData. Returns (Upstream 200 (Returns sampleTranscription)))
             (\<lambda>ms. Returns sampleCompletion)) = 200"
    using C2 [THEN conjunct2, THEN conjunct2, THEN conjunct1] fl(1) oks(1) tx by simp
  have q: "queryDeepSeek (\<lambda>ms. Returns sampleCompletion)
             [DeepSeekMessage RoleUser (JStr (ustr ''hello''))]
        = Inr (DeepSeekResponse sampleReply True)"
    using msg(6) by (simp add: queryDeepSeek_Returns)
  have r: "stringifyObj [(ustr ''transcription'', sampleTranscription),
             (ustr ''response'', resultJson (DeepSeekResponse sampleReply True))]
        = sampleChainedAnswer"
    by (simp add: stringifyObj_def resultJson_def sampleChainedAnswer_def
          sampleTranscription_def sampleReply_def)
  have j': "body (action_transcribe_chained (Returns sampleForm)
             (\<lambda>formData. Returns (Upstream 200 (Returns sampleTranscription)))
             (\<lambda>ms. Returns sampleCompletion)) = sampleChainedAnswer"
    using C2 [THEN conjunct2, THEN conjunct2, THEN conjunct2, THEN conjunct2, THEN conjunct2,
              THEN conjunct1] j tx q r by simp
  have k: "status (action_transcribe_chained (Returns sampleForm)
             (\<lambda>formData. Returns (Upstream 503 (Throws (JsThrown JNull))))
             (\<lambda>ms. Returns sampleCompletion)) = 500"
    using C3 [THEN conjunct2, THEN conjunct2, THEN conjunct2, THEN conjunct2, THEN conjunct2,
              THEN conjunct2, THEN conjunct2, THEN conjunct1] fl(1) oks(3) by simp
  have k': "body (action_transcribe_chained (Returns sampleForm)
             (\<lambda>formData. Returns (Upstream 503 (Throws (JsThrown JNull))))
             (\<lambda>ms. Returns sampleCompletion))
     = errorBody (ustr ''Failed to process request'')"
    using C3 [THEN conjunct2, THEN conjunct2, THEN conjunct2, THEN conjunct2, THEN conjunct1] k
    by simp
  have l: "action_transcribe_chained (Returns sampleForm)
             (\<lambda>formData. Returns (Upstream 200 (Returns sampleTranscription)))
             (\<lambda>ms. Throws (JsError (ustr ''401 Unauthorized'')))
     = \<lparr>status = 200,
        body = stringifyObj
          [(ustr ''transcription'', sampleTranscription),
           (ustr ''response'',
            resultJson (DeepSeekError
              (messageOr (ustr ''Unknown error occurred'') (JsError (ustr ''401 Unauthorized'')))
              (Some 500)))]\<rparr>"
    using C4 [THEN conjunct2, THEN conjunct2, THEN conjunct2, THEN conjunct2, THEN conjunct2,
              THEN conjunct2, THEN conjunct2, THEN conjunct2, THEN spec, THEN spec, THEN spec,
              THEN spec, THEN spec, THEN spec,
              of sampleForm "[0x1A, 0x45, 0xDF, 0xA3]"
                 "Upstream 200 (Returns sampleTranscription)" sampleTranscription
                 "JStr (ustr ''hello'')" "JsError (ustr ''401 Unauthorized'')"]
      fl(1) oks(1) tx by simp
  have l': "stringifyObj
          [(ustr ''transcription'', sampleTranscription),
           (ustr ''response'',
            resultJson (DeepSeekError
              (messageOr (ustr ''Unknown error occurred'') (JsError (ustr ''401 Unauthorized'')))
              (Some 500)))]
      = JObj [(ustr ''transcription'', sampleTranscription),
              (ustr ''response'',
               JObj [(ustr ''error'', JStr (ustr ''401 Unauthorized'')),
                     (ustr ''code'', JNum 500)])]"
    by (simp add: stringifyObj_def resultJson_def messageOr_def sampleTranscription_def)
  have I: "action_transcribe_chained (Returns [])
       (\<lambda>formData. Throws (JsThrown JNull)) (\<lambda>ms. Returns sampleCompletion)
     = \<lparr>status = 400, body = errorBody (ustr ''No audio file provided'')\<rparr>"
    using i i' by (cases "action_transcribe_chained (Returns [])
       (\<lambda>formData. Throws (JsThrown JNull)) (\<lambda>ms. Returns sampleCompletion)") simp
  have J: "action_transcribe_chained (Returns sampleForm)
       (\<lambda>formData. Returns (Upstream 200 (Returns sampleTranscription)))
       (\<lambda>ms. Returns sampleCompletion)
     = \<lparr>status = 200, body = sampleChainedAnswer\<rparr>"
    using j j' by (cases "action_transcribe_chained (Returns sampleForm)
       (\<lambda>formData. Returns (Upstream 200 (Returns sampleTranscription)))
       (\<lambda>ms. Returns sampleCompletion)") simp
  have K: "action_transcribe_chained (Returns sampleForm)
       (\<lambda>formData. Returns (Upstream 503 (Throws (JsThrown JNull))))
       (\<lambda>ms. Returns sampleCompletion)
     = \<lparr>status = 500, body = errorBody (ustr ''Failed to process request'')\<rparr>"
    using k k' by (cases "action_transcribe_chained (Returns sampleForm)
       (\<lambda>formData. Returns (Upstream 503 (Throws (JsThrown JNull))))
       (\<lambda>ms. Returns sampleCompletion)") simp
  from a a' b b' c c' d d' e e' f f' g h I J K l [unfolded l'] show ?thesis by simp
qed

text \<open>
  C5 as stated has status 400 whenever the text is missing. The process-text relay, given
  the body \<open>{}\<close>, sends \<open>{}\<close> on to the backend: it answers 500 when the backend refuses
  (status 422) and 200 when the backend answers.
\<close>

theorem process_text_without_text:
  "stringifyObj [(ustr ''text'', optProp (JObj []) (ustr ''text''))] = JObj [] \<and>
   action_process_text (Returns (JObj []))
     (\<lambda>sent. Returns (Upstream 422 (Returns (JObj [(ustr ''detail'', JStr (ustr ''text: field required''))]))))
     = \<lparr>status = 500, body = errorBody (ustr ''Failed to process text'')\<rparr> \<and>
   action_process_text (Returns (JObj []))
     (\<lambda>sent. Returns (Upstream 200 (Returns (JObj [(ustr ''text'', JStr [])]))))
     = \<lparr>status = 200, body = JObj [(ustr ''text'', JStr [])]\<rparr>"
  by (simp add: action_process_text_eq stringifyObj_def optProp_def ok_def)

subsection \<open>Exceptions at the relay endpoints\<close>

text \<open>
  What makes the \<open>try\<close> block of each relay raise: a request body that cannot be read, a
  body that is \<open>null\<close> where a property is read, a backend that cannot be reached, that
  answers with a status outside 200-299 or with a body that is not JSON.
  \<open>queryDeepSeek\<close> raises nothing.
\<close>

lemma action_transcribe_try_throws:
  "(action_transcribe_try request fetch = Inl e) =
     (request = Throws e \<or>
      (\<exists>formData audioBlob. request = Returns formData \<and> getFile formData = Some audioBlob \<and>
         (fetch formData = Throws e \<or>
          (\<exists>response. fetch formData = Returns response \<and>
             (if ok response then up_json response = Throws e
              else e = JsError (ustr ''HTTP error! status: '' @
                                decimal (up_status response)))))))"
  by (auto simp: action_transcribe_try_def andThen_def await_def
        split: outcome.splits option.splits)

lemma action_transcribe_chained_try_throws:
  "(action_transcribe_chained_try request fetch create = Inl e) =
     (request = Throws e \<or>
      (\<exists>formData audioBlob. request = Returns formData \<and> getFile formData = Some audioBlob \<and>
         (fetch formData = Throws e \<or>
          (\<exists>response. fetch formData = Returns response \<and>
             (if ok response
              then up_json response = Throws e \<or>
                   (\<exists>transcriptionData. up_json response = Returns transcriptionData \<and>
                      getProp transcriptionData (ustr ''text'') = Inl e)
              else e = JsError (ustr ''Transcription error: '' @
                                decimal (up_status response)))))))"
proof -
  have q: "\<And>ms. queryDeepSeek create ms \<noteq> Inl e"
    using queryDeepSeek_total by (metis sum.distinct(1))
  show ?thesis
    using q
    by (auto simp: action_transcribe_chained_try_def andThen_def await_def
          split: outcome.splits option.splits sum.splits)
qed

lemma action_process_text_try_throws:
  "(action_process_text_try request fetch = Inl e) =
     (request = Throws e \<or>
      (\<exists>b. request = Returns b \<and>
         (getProp b (ustr ''text'') = Inl e \<or>
          (\<exists>text. getProp b (ustr ''text'') = Inr text \<and>
             (fetch (stringifyObj [(ustr ''text'', text)]) = Throws e \<or>
              (\<exists>response. fetch (stringifyObj [(ustr ''text'', text)]) = Returns response \<and>
                 (if ok response then up_json response = Throws e
                  else e = JsError (ustr ''HTTP error! status: '' @
                                    decimal (up_status response)))))))))"
  by (auto simp: action_process_text_try_def andThen_def await_def
        split: outcome.splits sum.splits)

lemma action_textmessage_try_throws:
  "(action_textmessage_try request create = Inl e) =
     (request = Throws e \<or>
      (\<exists>b. request = Returns b \<and> destructure b (ustr ''message'') = Inl e))"
proof -
  have q: "\<And>ms. queryDeepSeek create ms \<noteq> Inl e"
    using queryDeepSeek_total by (metis sum.distinct(1))
  show ?thesis
    using q
    by (auto simp: action_textmessage_try_def andThen_def await_def
          split: outcome.splits sum.splits DeepSeekResult.splits)
qed

text \<open>
  C6, as the code has it. The exceptions that reach the \<open>catch\<close> of a relay are those of
  reading the request, of the fetch to the backend, of a status outside 200-299 and of
  reading the backend's answer. For each of them the relay answers with status 500 and an
  error body. The two transcription relays and the process-text relay answer a fixed text,
  the same for every exception; the text-message relay answers with the message of the
  exception (a fixed text when the thrown value is no \<open>Error\<close>). An exception of the
  Together client does not reach the \<open>catch\<close>: \<open>queryDeepSeek\<close> has turned it into a value
  that carries its message, which the chained transcription relay sends as \<open>response\<close>
  with status 200 and the text-message relay sends as the error string with status 500.
\<close>

theorem relay_exceptions:
  "((action_transcribe_try request fetch = Inl e) =
      (request = Throws e \<or>
       (\<exists>formData audioBlob. request = Returns formData \<and> getFile formData = Some audioBlob \<and>
          (fetch formData = Throws e \<or>
           (\<exists>response. fetch formData = Returns response \<and>
              (if ok response then up_json response = Throws e
               else e = JsError (ustr ''HTTP error! status: '' @
                                 decimal (up_status response)))))))) \<and>
   (action_transcribe_try request fetch = Inl e \<longrightarrow>
      action_transcribe request fetch
        = \<lparr>status = 500, body = errorBody (ustr ''Failed to transcribe audio'')\<rparr>) \<and>
   ((action_transcribe_chained_try crequest cfetch ccreate = Inl e) =
      (crequest = Throws e \<or>
       (\<exists>formData audioBlob. crequest = Returns formData \<and> getFile formData = Some audioBlob \<and>
          (cfetch formData = Throws e \<or>
           (\<exists>response. cfetch formData = Returns response \<and>
              (if ok response
               then up_json response = Throws e \<or>
                    (\<exists>transcriptionData. up_json response = Returns transcriptionData \<and>
                       getProp transcriptionData (ustr ''text'') = Inl e)
               else e = JsError (ustr ''Transcription error: '' @
                                 decimal (up_status response)))))))) \<and>
   (action_transcribe_chained_try crequest cfetch ccreate = Inl e \<longrightarrow>
      action_transcribe_chained crequest cfetch ccreate
        = \<lparr>status = 500, body = errorBody (ustr ''Failed to process request'')\<rparr>) \<and>
   (\<forall>formData audioBlob response transcriptionData text.
      crequest = Returns formData \<and> getFile formData = Some audioBlob \<and>
      cfetch formData = Returns response \<and> ok response \<and>
      up_json response = Returns transcriptionData \<and>
      getProp transcriptionData (ustr ''text'') = Inr text \<and>
      ccreate [DeepSeekMessage RoleUser text] = Throws e \<longrightarrow>
      action_transcribe_chained crequest cfetch ccreate
        = \<lparr>status = 200,
           body = stringifyObj
             [(ustr ''transcription'', transcriptionData),
              (ustr ''response'',
               stringifyObj
                 [(ustr ''error'', JStr (messageOr (ustr ''Unknown error occurred'') e)),
                  (ustr ''code'', JNum 500)])]\<rparr>) \<and>
   ((action_process_text_try jrequest jfetch = Inl e) =
      (jrequest = Throws e \<or>
       (\<exists>b. jrequest = Returns b \<and>
          (getProp b (ustr ''text'') = Inl e \<or>
           (\<exists>text. getProp b (ustr ''text'') = Inr text \<and>
              (jfetch (stringifyObj [(ustr ''text'', text)]) = Throws e \<or>
               (\<exists>response. jfetch (stringifyObj [(ustr ''text'', text)]) = Returns response \<and>
                  (if ok response then up_json response = Throws e
                   else e = JsError (ustr ''HTTP error! status: '' @
                                     decimal (up_status response)))))))))) \<and>
   (action_process_text_try jrequest jfetch = Inl e \<longrightarrow>
      action_process_text jrequest jfetch
        = \<lparr>status = 500, body = errorBody (ustr ''Failed to process text'')\<rparr>) \<and>
   ((action_textmessage_try mrequest create = Inl e) =
      (mrequest = Throws e \<or>
       (\<exists>b. mrequest = Returns b \<and> destructure b (ustr ''message'') = Inl e))) \<and>
   (action_textmessage_try mrequest create = Inl e \<longrightarrow>
      action_textmessage mrequest create
        = \<lparr>status = 500, body = errorBody (messageOr (ustr ''Unknown error'') e)\<rparr>) \<and>
   (\<forall>b m. mrequest = Returns b \<and> destructure b (ustr ''message'') = Inr m \<and> truthy m \<and>
      create [DeepSeekMessage RoleUser m] = Throws e \<longrightarrow>
      action_textmessage mrequest create
        = \<lparr>status = 500,
           body = errorBody (messageOr (ustr ''Unknown error occurred'') e)\<rparr>)"
proof (intro conjI)
  show "(action_transcribe_try request fetch = Inl e) =
      (request = Throws e \<or>
       (\<exists>formData audioBlob. request = Returns formData \<and> getFile formData = Some audioBlob \<and>
          (fetch formData = Throws e \<or>
           (\<exists>response. fetch formData = Returns response \<and>
              (if ok response then up_json response = Throws e
               else e = JsError (ustr ''HTTP error! status: '' @
                                 decimal (up_status response)))))))"
    by (rule action_transcribe_try_throws)
  show "action_transcribe_try request fetch = Inl e \<longrightarrow>
      action_transcribe request fetch
        = \<lparr>status = 500, body = errorBody (ustr ''Failed to transcribe audio'')\<rparr>"
    by (simp add: action_transcribe_def)
  show "(action_transcribe_chained_try crequest cfetch ccreate = Inl e) =
      (crequest = Throws e \<or>
       (\<exists>formData audioBlob. crequest = Returns formData \<and> getFile formData = Some audioBlob \<and>
          (cfetch formData = Throws e \<or>
           (\<exists>response. cfetch formData = Returns response \<and>
              (if ok response
               then up_json response = Throws e \<or>
                    (\<exists>transcriptionData. up_json response = Returns transcriptionData \<and>
                       getProp transcriptionData (ustr ''text'') = Inl e)
               else e = JsError (ustr ''Transcription error: '' @
                                 decimal (up_status response)))))))"
    by (rule action_transcribe_chained_try_throws)
  show "action_transcribe_chained_try crequest cfetch ccreate = Inl e \<longrightarrow>
      action_transcribe_chained crequest cfetch ccreate
        = \<lparr>status = 500, body = errorBody (ustr ''Failed to process request'')\<rparr>"
    by (simp add: action_transcribe_chained_def)
  show "\<forall>formData audioBlob response transcriptionData text.
      crequest = Returns formData \<and> getFile formData = Some audioBlob \<and>
      cfetch formData = Returns response \<and> ok response \<and>
      up_json response = Returns transcriptionData \<and>
      getProp transcriptionData (ustr ''text'') = Inr text \<and>
      ccreate [DeepSeekMessage RoleUser text] = Throws e \<longrightarrow>
      action_transcribe_chained crequest cfetch ccreate
        = \<lparr>status = 200,
           body = stringifyObj
             [(ustr ''transcription'', transcriptionData),
              (ustr ''response'',
               stringifyObj
                 [(ustr ''error'', JStr (messageOr (ustr ''Unknown error occurred'') e)),
                  (ustr ''code'', JNum 500)])]\<rparr>"
    by (simp add: action_transcribe_chained_eq queryDeepSeek_Throws resultJson_def)
  show "(action_process_text_try jrequest jfetch = Inl e) =
      (jrequest = Throws e \<or>
       (\<exists>b. jrequest = Returns b \<and>
          (getProp b (ustr ''text'') = Inl e \<or>
           (\<exists>text. getProp b (ustr ''text'') = Inr text \<and>
              (jfetch (stringifyObj [(ustr ''text'', text)]) = Throws e \<or>
               (\<exists>response. jfetch (stringifyObj [(ustr ''text'', text)]) = Returns response \<and>
                  (if ok response then up_json response = Throws e
                   else e = JsError (ustr ''HTTP error! status: '' @
                                     decimal (up_status response)))))))))"
    by (rule action_process_text_try_throws)
  show "action_process_text_try jrequest jfetch = Inl e \<longrightarrow>
      action_process_text jrequest jfetch
        = \<lparr>status = 500, body = errorBody (ustr ''Failed to process text'')\<rparr>"
    by (simp add: action_process_text_def)
  show "(action_textmessage_try mrequest create = Inl e) =
      (mrequest = Throws e \<or>
       (\<exists>b. mrequest = Returns b \<and> destructure b (ustr ''message'') = Inl e))"
    by (rule action_textmessage_try_throws)
  show "action_textmessage_try mrequest create = Inl e \<longrightarrow>
      action_textmessage mrequest create
        = \<lparr>status = 500, body = errorBody (messageOr (ustr ''Unknown error'') e)\<rparr>"
    by (simp add: action_textmessage_def)
  show "\<forall>b m. mrequest = Returns b \<and> destructure b (ustr ''message'') = Inr m \<and> truthy m \<and>
      create [DeepSeekMessage RoleUser m] = Throws e \<longrightarrow>
      action_textmessage mrequest create
        = \<lparr>status = 500,
           body = errorBody (messageOr (ustr ''Unknown error occurred'') e)\<rparr>"
    by (simp add: action_textmessage_eq)
qed

text \<open>
  At each relay a request whose body cannot be read; at the two relays with a model call,
  a client that throws.
\<close>

theorem relay_exceptions_witness:
  "action_transcribe (Throws (JsError (ustr ''Failed to parse body as FormData.'')))
     (\<lambda>formData. Returns (Upstream 200 (Returns sampleTranscription)))
     = \<lparr>status = 500, body = errorBody (ustr ''Failed to transcribe audio'')\<rparr> \<and>
   action_transcribe_chained (Throws (JsError (ustr ''Failed to parse body as FormData.'')))
     (\<lambda>formData. Returns (Upstream 200 (Returns sampleTranscription)))
     (\<lambda>ms. Returns sampleCompletion)
     = \<lparr>status = 500, body = errorBody (ustr ''Failed to process request'')\<rparr> \<and>
   action_process_text (Throws (JsError (ustr ''Failed to parse body as FormData.'')))
     (\<lambda>sent. Throws (JsThrown JNull))
     = \<lparr>status = 500, body = errorBody (ustr ''Failed to process text'')\<rparr> \<and>
   action_textmessage (Throws (JsError (ustr ''Failed to parse body as FormData.'')))
     (\<lambda>ms. Returns sampleCompletion)
     = \<lparr>status = 500, body = errorBody (ustr ''Failed to parse body as FormData.'')\<rparr> \<and>
   action_transcribe_chained (Returns sampleForm)
     (\<lambda>formData. Returns (Upstream 200 (Returns sampleTranscription)))
     (\<lambda>ms. Throws (JsError (ustr ''401 Unauthorized'')))
     = \<lparr>status = 200,
        body = JObj [(ustr ''transcription'', sampleTranscription),
                     (ustr ''response'',
                      JObj [(ustr ''error'', JStr (ustr ''401 Unauthorized'')),
                            (ustr ''code'', JNum 500)])]\<rparr> \<and>
   action_textmessage (Returns (JObj [(ustr ''message'', JStr (ustr ''hello''))]))
     (\<lambda>ms. Throws (JsError (ustr ''401 Unauthorized'')))
     = \<lparr>status = 500, body = errorBody (ustr ''401 Unauthorized'')\<rparr>"
proof -
  let ?e = "JsError (ustr ''Failed to parse body as FormData.'')"
  let ?u = "JsError (ustr ''401 Unauthorized'')"
  note T1 = relay_exceptions
      [where request = "Throws ?e"
         and fetch = "\<lambda>formData. Returns (Upstream 200 (Returns sampleTranscription))"
         and crequest = "Throws ?e"
         and cfetch = "\<lambda>formData. Returns (Upstream 200 (Returns sampleTranscription))"
         and ccreate = "\<lambda>ms. Returns sampleCompletion"
         and jrequest = "Throws ?e" and jfetch = "\<lambda>sent. Throws (JsThrown JNull)"
         and mrequest = "Throws ?e" and create = "\<lambda>ms. Returns sampleCompletion"
         and e = ?e]
  note T2 = relay_exceptions
      [where crequest = "Returns sampleForm"
         and cfetch = "\<lambda>formData. Returns (Upstream 200 (Returns sampleTranscription))"
         and ccreate = "\<lambda>ms. Throws ?u"
         and mrequest = "Returns (JObj [(ustr ''message'', JStr (ustr ''hello''))])"
         and create = "\<lambda>ms. Throws ?u"
         and e = ?u]
  have a0: "action_transcribe_try (Throws ?e)
        (\<lambda>formData. Returns (Upstream 200 (Returns sampleTranscription))) = Inl ?e"
    using T1 [THEN conjunct1] by simp
  have a: "action_transcribe (Throws ?e)
        (\<lambda>formData. Returns (Upstream 200 (Returns sampleTranscription)))
      = \<lparr>status = 500, body = errorBody (ustr ''Failed to transcribe audio'')\<rparr>"
    using T1 [THEN conjunct2, THEN conjunct1] a0 by (rule mp)
  have b0: "action_transcribe_chained_try (Throws ?e)
        (\<lambda>formData. Returns (Upstream 200 (Returns sampleTranscription)))
        (\<lambda>ms. Returns sampleCompletion) = Inl ?e"
    using T1 [THEN conjunct2, THEN conjunct2, THEN conjunct1] by simp
  have b: "action_transcribe_chained (Throws ?e)
        (\<lambda>formData. Returns (Upstream 200 (Returns sampleTranscription)))
        (\<lambda>ms. Returns sampleCompletion)
      = \<lparr>status = 500, body = errorBody (ustr ''Failed to process request'')\<rparr>"
    using T1 [THEN conjunct2, THEN conjunct2, THEN conjunct2, THEN conjunct1] b0 by (rule mp)
  have c0: "action_process_text_try (Throws ?e) (\<lambda>sent. Throws (JsThrown JNull)) = Inl ?e"
    using T1 [THEN conjunct2, THEN conjunct2, THEN conjunct2, THEN conjunct2, THEN conjunct2,
              THEN conjunct1] by simp
  have c: "action_process_text (Throws ?e) (\<lambda>sent. Throws (JsThrown JNull))
      = \<lparr>status = 500, body = errorBody (ustr ''Failed to process text'')\<rparr>"
    using T1 [THEN conjunct2, THEN conjunct2, THEN conjunct2, THEN conjunct2, THEN conjunct2,
              THEN conjunct2, THEN conjunct1] c0 by (rule mp)
  have d0: "action_textmessage_try (Throws ?e) (\<lambda>ms. Returns sampleCompletion) = Inl ?e"
    using T1 [THEN conjunct2, THEN conjunct2, THEN conjunct2, THEN conjunct2, THEN conjunct2,
              THEN conjunct2, THEN conjunct2, THEN conjunct1] by simp
  have d: "action_textmessage (Throws ?e) (\<lambda>ms. Returns sampleCompletion)
      = \<lparr>status = 500, body = errorBody (messageOr (ustr ''Unknown error'') ?e)\<rparr>"
    using T1 [THEN conjunct2, THEN conjunct2, THEN conjunct2, THEN conjunct2, THEN conjunct2,
              THEN conjunct2, THEN conjunct2, THEN conjunct2, THEN conjunct1] d0 by (rule mp)
  have fl: "getFile sampleForm = Some [0x1A, 0x45, 0xDF, 0xA3]"
    by (simp add: getFile_def sampleForm_def)
  have tx: "getProp sampleTranscription (ustr ''text'') = Inr (JStr (ustr ''hello''))"
    by (simp add: sampleTranscription_def ustr_def)
  have ms: "destructure (JObj [(ustr ''message'', JStr (ustr ''hello''))]) (ustr ''message'')
       = Inr (JStr (ustr ''hello''))" "truthy (JStr (ustr ''hello''))"
    by (simp_all add: destructure_def ustr_def)
  have f: "action_transcribe_chained (Returns sampleForm)
        (\<lambda>formData. Returns (Upstream 200 (Returns sampleTranscription))) (\<lambda>ms. Throws ?u)
      = \<lparr>status = 200,
         body = stringifyObj
           [(ustr ''transcription'', sampleTranscription),
            (ustr ''response'',
             stringifyObj
               [(ustr ''error'', JStr (messageOr (ustr ''Unknown error occurred'') ?u)),
                (ustr ''code'', JNum 500)])]\<rparr>"
    using T2 [THEN conjunct2, THEN conjunct2, THEN conjunct2, THEN conjunct2, THEN conjunct1,
              THEN spec, THEN spec, THEN spec, THEN spec, THEN spec,
              of sampleForm "[0x1A, 0x45, 0xDF, 0xA3]"
                 "Upstream 200 (Returns sampleTranscription)" sampleTranscription
                 "JStr (ustr ''hello'')"]
      fl tx by (simp add: ok_def)
  have g: "action_textmessage (Returns (JObj [(ustr ''message'', JStr (ustr ''hello''))]))
        (\<lambda>ms. Throws ?u)
      = \<lparr>status = 500, body = errorBody (messageOr (ustr ''Unknown error occurred'') ?u)\<rparr>"
    using T2 [THEN conjunct2, THEN conjunct2, THEN conjunct2, THEN conjunct2, THEN conjunct2,
              THEN conjunct2, THEN conjunct2, THEN conjunct2, THEN conjunct2,
              THEN spec, THEN spec,
              of "JObj [(ustr ''message'', JStr (ustr ''hello''))]" "JStr (ustr ''hello'')"]
      ms by simp
  have v: "messageOr (ustr ''Unknown error'') ?e = ustr ''Failed to parse body as FormData.''"
    "messageOr (ustr ''Unknown error occurred'') ?u = ustr ''401 Unauthorized''"
    by (simp_all add: messageOr_def)
  have v1: "stringifyObj
           [(ustr ''transcription'', sampleTranscription),
            (ustr ''response'',
             stringifyObj
               [(ustr ''error'', JStr (ustr ''401 Unauthorized'')),
                (ustr ''code'', JNum 500)])]
      = JObj [(ustr ''transcription'', sampleTranscription),
              (ustr ''response'',
               JObj [(ustr ''error'', JStr (ustr ''401 Unauthorized'')),
                     (ustr ''code'', JNum 500)])]"
    by (simp add: stringifyObj_def sampleTranscription_def)
  from a b c d [unfolded v] f [unfolded v v1] g [unfolded v] show ?thesis
    by simp
qed

text \<open>
  C6 as stated has no detail of the exception reach the client. At the text-message relay
  the message of the \<open>SyntaxError\<close> of \<open>request.json()\<close> is the error string of the answer.
\<close>

theorem textmessage_forwards_exception:
  "action_textmessage (Throws (JsError (ustr ''Unexpected token < in JSON at position 0'')))
     (\<lambda>ms. Returns sampleCompletion)
     = \<lparr>status = 500, body = errorBody (ustr ''Unexpected token < in JSON at position 0'')\<rparr>"
  by (simp add: action_textmessage_eq messageOr_def)

end
